theory Spec2Isabelle
  imports Complex_Main
begin

section \<open>Fatal errors (src/src/utils.cpp, lines 22 to 26)\<close>

text \<open>
  \<^verbatim>\<open>error(str)\<close> prints the diagnostic and calls \<^verbatim>\<open>exit(1)\<close>; the
  \<^verbatim>\<open>fprintf(stderr, ...); exit(1);\<close> pairs do the same. Every such exit is the
  left summand of the result, carrying the diagnostic text. A call through a null
  pointer and a read past the end of an array have no defined behaviour; there the run
  ends with no diagnostic, which is \<open>Crash\<close>.
\<close>

datatype error = Error string | Crash

definition error :: "string \<Rightarrow> error + 'a" where
  "error str = Inl (Error str)"

section \<open>The lexer (src/src/utils.cpp, from line 26)\<close>

datatype StringType = C_STRING | CHAR_ARRAY | PTR_CHAR_ARRAY

text \<open>
  \<^verbatim>\<open>next_token\<close> returns an \<^verbatim>\<open>int\<close>: a (negative) enumerator of \<^verbatim>\<open>Token\<close> or
  the ASCII value of a single character. The enumeration is declared in lexer.h; the
  enumerators that the lexer names are listed, \<open>T_KEYWORD\<close> stands for the enumerators
  that only the keyword table holds, and \<open>T_ASCII c\<close> is the character code \<open>c\<close>.
\<close>

datatype Token =
    T_EOF | T_IDENTIFIER | T_NUMBER | T_STRING | T_CHAR
  | T_EQEQ | T_LEQ | T_GEQ | T_NEQ
  | T_PLUSEQ | T_MINEQ | T_STAREQ | T_SLASHEQ | T_PERCENTEQ | T_ANDEQ | T_OREQ
  | T_LOR | T_LAND | T_LSHIFT | T_RSHIFT | T_DOUBLE_COLON
  | T_KEYWORD string
  | T_ASCII char

text \<open>
  The global variables of the lexer, with the character source that \<^verbatim>\<open>next_char\<close>
  reads. \<open>last_char\<close> is \<open>None\<close> when it holds \<^verbatim>\<open>EOF\<close>; the source is a list of
  bytes, none of which is read as \<^verbatim>\<open>EOF\<close> (a \<^verbatim>\<open>char\<close> that holds \<^verbatim>\<open>EOF\<close> is
  the byte 0xFF where it is written to a stream).
\<close>

record lexer =
  identifier_string :: string
  char_value :: char
  num_value :: string
  num_base :: nat
  num_has_dot :: bool
  num_type :: char
  string_value :: string
  string_type :: StringType
  last_char :: "char option"
  source :: "char list"

text \<open>
  Modelled from the spec: \<^verbatim>\<open>next_char\<close> is declared in lexer.h, which is not under
  src/. Section 4.1: an implicit character source with a one-character lookahead; at
  the end of the source it keeps returning \<^verbatim>\<open>EOF\<close>.
\<close>

definition next_char :: "lexer \<Rightarrow> char option \<times> lexer" where
  "next_char lx = (case source lx of [] \<Rightarrow> (None, lx) | c # cs \<Rightarrow> (Some c, lx\<lparr>source := cs\<rparr>))"

text \<open>The statement \<^verbatim>\<open>last_char = next_char();\<close>\<close>

definition advance :: "lexer \<Rightarrow> lexer" where
  "advance lx = (case next_char lx of (c, lx') \<Rightarrow> lx'\<lparr>last_char := c\<rparr>)"

text \<open>The functions of \<^verbatim>\<open><ctype.h>\<close> in the C locale; all are false on \<^verbatim>\<open>EOF\<close>.\<close>

definition isspace :: "char option \<Rightarrow> bool" where
  "isspace c = (case c of None \<Rightarrow> False
     | Some d \<Rightarrow> d \<in> set [CHR '' '', CHR 0x09, CHR 0x0A, CHR 0x0B, CHR 0x0C, CHR 0x0D])"

definition isdigit :: "char option \<Rightarrow> bool" where
  "isdigit c = (case c of None \<Rightarrow> False | Some d \<Rightarrow> d \<in> set ''0123456789'')"

definition isalpha :: "char option \<Rightarrow> bool" where
  "isalpha c = (case c of None \<Rightarrow> False
     | Some d \<Rightarrow> d \<in> set ''abcdefghijklmnopqrstuvwxyzABCDEFGHIJKLMNOPQRSTUVWXYZ'')"

definition isxdigit :: "char option \<Rightarrow> bool" where
  "isxdigit c = (case c of None \<Rightarrow> False | Some d \<Rightarrow> d \<in> set ''0123456789abcdefABCDEF'')"

text \<open>The value of a \<^verbatim>\<open>char\<close> promoted to \<^verbatim>\<open>int\<close> (\<^verbatim>\<open>EOF\<close> is \<open>-1\<close>).\<close>

definition char_int :: "char option \<Rightarrow> int" where
  "char_int c = (case c of None \<Rightarrow> - 1
     | Some d \<Rightarrow> if of_char d < (128 :: int) then of_char d else of_char d - 256)"

definition is_alphaish :: "char \<Rightarrow> bool" where
  "is_alphaish c = (isalpha (Some c) \<or> isdigit (Some c) \<or> c = CHR ''_'')"

text \<open>
  \<^verbatim>\<open>read_str\<close>: \<^verbatim>\<open>stream << last_char; while (predicate(last_char = next_char())) stream << last_char;\<close>
  The loop runs over the source; it returns the characters it appended, the last
  character read and the rest of the source.
\<close>

fun read_str_loop :: "(char \<Rightarrow> bool) \<Rightarrow> char list \<Rightarrow> string \<times> char option \<times> char list" where
  "read_str_loop predicate [] = ([], None, [])"
| "read_str_loop predicate (c # cs) =
     (if predicate c
      then (case read_str_loop predicate cs of (s, l, r) \<Rightarrow> (c # s, l, r))
      else ([], Some c, cs))"

definition read_str :: "(char \<Rightarrow> bool) \<Rightarrow> lexer \<Rightarrow> string \<times> lexer" where
  "read_str predicate lx =
     (case read_str_loop predicate (source lx) of
        (s, l, r) \<Rightarrow>
          ((case last_char lx of None \<Rightarrow> CHR 0xFF | Some c \<Rightarrow> c) # s,
           lx\<lparr>last_char := l, source := r\<rparr>))"

definition xtoi :: "int \<Rightarrow> int" where
  "xtoi c = (if c \<le> of_char CHR ''9'' then c - of_char CHR ''0''
             else if c \<le> of_char CHR ''F'' then c - of_char CHR ''A''
             else c - of_char CHR ''a'')"

definition get_escape :: "char option \<Rightarrow> lexer \<Rightarrow> error + (char \<times> lexer)" where
  "get_escape escape_char lx =
     (if escape_char = Some CHR ''n'' then Inr (CHR 0x0A, lx)
      else if escape_char = Some CHR ''r'' then Inr (CHR 0x0D, lx)
      else if escape_char = Some CHR ''t'' then Inr (CHR 0x09, lx)
      else if escape_char = Some CHR 0x27 then Inr (CHR 0x27, lx)
      else if escape_char = Some CHR 0x22 then Inr (CHR 0x22, lx)
      else if escape_char = Some CHR 0x5C then Inr (CHR 0x5C, lx)
      else if escape_char = Some CHR ''0'' then Inr (CHR 0x00, lx)
      else if escape_char = Some CHR ''x'' then
        (case next_char lx of (first, lx1) \<Rightarrow>
         case next_char lx1 of (second, lx2) \<Rightarrow>
           if \<not> isxdigit first \<or> \<not> isxdigit second
           then error (''Expected two hex digits after '' @ [CHR 0x5C, CHR ''x''])
           else Inr (char_of (push_bit 4 (xtoi (char_int first)) + xtoi (char_int second)), lx2))
      else error (''Invalid escape '' @ [CHR 0x27]
                    @ [case escape_char of None \<Rightarrow> CHR 0xFF | Some c \<Rightarrow> c] @ [CHR 0x27]))"

subsection \<open>The loops of \<^verbatim>\<open>next_token\<close>\<close>

text \<open>\<^verbatim>\<open>while (isspace(last_char)) last_char = next_char();\<close>\<close>

fun skip_space :: "char option \<Rightarrow> char list \<Rightarrow> char option \<times> char list" where
  "skip_space None src = (None, src)"
| "skip_space (Some c) [] = (if isspace (Some c) then (None, []) else (Some c, []))"
| "skip_space (Some c) (d # ds) =
     (if isspace (Some c) then skip_space (Some d) ds else (Some c, d # ds))"

text \<open>
  The \<^verbatim>\<open>num_while\<close> loop (lines 137 to 151): it stops at the first character that is
  not a digit of the base and at a second dot; it returns the characters appended to the
  stream, \<^verbatim>\<open>num_has_dot\<close>, \<^verbatim>\<open>last_char\<close> and the rest of the source.
\<close>

definition not_digit_of :: "nat \<Rightarrow> char \<Rightarrow> bool" where
  "not_digit_of base c =
     (if base = 16 then \<not> isxdigit (Some c)
      else if base = 10 then \<not> (isdigit (Some c) \<or> c = CHR ''.'')
      else if base = 8 then (of_char c < (of_char CHR ''0'' :: nat) \<or> (of_char CHR ''7'' :: nat) < of_char c)
      else (of_char c < (of_char CHR ''0'' :: nat) \<or> (of_char CHR ''1'' :: nat) < of_char c))"

fun num_while :: "nat \<Rightarrow> bool \<Rightarrow> char option \<Rightarrow> char list \<Rightarrow> string \<times> bool \<times> char option \<times> char list" where
  "num_while base has_dot None src = ([], has_dot, None, src)"
| "num_while base has_dot (Some c) [] =
     (if not_digit_of base c then ([], has_dot, Some c, [])
      else if c = CHR ''.'' \<and> has_dot then ([], has_dot, Some c, [])
      else ([c], (c = CHR ''.'' \<or> has_dot), None, []))"
| "num_while base has_dot (Some c) (d # ds) =
     (if not_digit_of base c then ([], has_dot, Some c, d # ds)
      else if c = CHR ''.'' \<and> has_dot then ([], has_dot, Some c, d # ds)
      else (case num_while base (c = CHR ''.'' \<or> has_dot) (Some d) ds of
              (s, h, l, r) \<Rightarrow> (c # s, h, l, r)))"

text \<open>
  The line comment loop:
  \<^verbatim>\<open>do last_char = next_char(); while (last_char != EOF && last_char != '\n' && last_char != '\r');\<close>
\<close>

fun skip_line_comment :: "char list \<Rightarrow> char option \<times> char list" where
  "skip_line_comment [] = (None, [])"
| "skip_line_comment (c # cs) =
     (if c = CHR 0x0A \<or> c = CHR 0x0D then (Some c, cs) else skip_line_comment cs)"

text \<open>
  The block comment loop:
  \<^verbatim>\<open>do { last = last_char; last_char = next_char(); } while (last_char != EOF && !(last == '*' && last_char == '/'));\<close>
\<close>

fun skip_block_comment :: "char option \<Rightarrow> char list \<Rightarrow> char option \<times> char list" where
  "skip_block_comment l [] = (None, [])"
| "skip_block_comment l (c # cs) =
     (if l = Some CHR ''*'' \<and> c = CHR ''/'' then (Some c, cs) else skip_block_comment (Some c) cs)"

lemma get_escape_source_length:
  "get_escape e lx = Inr (c, lx') \<Longrightarrow> length (source lx') \<le> length (source lx)"
  by (auto simp: get_escape_def next_char_def error_def split: if_splits list.splits prod.splits)

lemma get_escape_last_char:
  "get_escape e lx = Inr (c, lx') \<Longrightarrow> last_char lx' = last_char lx"
  by (auto simp: get_escape_def next_char_def error_def split: if_splits list.splits prod.splits)

text \<open>
  The string loop (lines 169 to 176):
  \<^verbatim>\<open>while ((last_char = next_char()) != '"') { ... }\<close>; the argument \<open>stream\<close> holds what
  has been written to the string stream.
\<close>

function string_loop :: "string \<Rightarrow> lexer \<Rightarrow> error + (string \<times> lexer)" where
  "string_loop stream lx =
     (case last_char (advance lx) of
        None \<Rightarrow> error ''Unexpected EOF in string''
      | Some c \<Rightarrow>
          if c = CHR 0x22 then Inr (stream, advance lx)
          else if c = CHR 0x5C then
            (case next_char (advance lx) of (e, lx2) \<Rightarrow>
               (case get_escape e lx2 of
                  Inl err \<Rightarrow> Inl err
                | Inr (b, lx3) \<Rightarrow> string_loop (stream @ [b]) lx3))
          else string_loop (stream @ [c]) (advance lx))"
  by pat_completeness auto
termination
proof (relation "measure (\<lambda>(s, lx). length (source lx))", goal_cases)
  case 1
  show ?case by simp
next
  case (2 stream lx c x y x2 x1a y1)
  then show ?case
    using get_escape_source_length [of x y x1a y1]
    by (auto simp: advance_def next_char_def split: list.splits prod.splits)
next
  case (3 stream lx c)
  then show ?case
    by (auto simp: advance_def next_char_def split: list.splits prod.splits)
qed


subsection \<open>\<^verbatim>\<open>next_token\<close>\<close>

text \<open>The identifier branch (lines 112 to 116); \<open>keywords\<close> is the table of lexer.h.\<close>

definition lex_identifier :: "(string \<Rightarrow> Token option) \<Rightarrow> lexer \<Rightarrow> Token \<times> lexer" where
  "lex_identifier keywords lx =
     (case read_str is_alphaish lx of
        (s, lx1) \<Rightarrow>
          (case keywords s of
             Some keyword \<Rightarrow> (keyword, lx1\<lparr>identifier_string := s\<rparr>)
           | None \<Rightarrow> (T_IDENTIFIER, lx1\<lparr>identifier_string := s\<rparr>)))"

text \<open>
  The number branch up to \<^verbatim>\<open>num_value = stream.str();\<close> (lines 119 to 152): the first
  digit goes to the stream, a base prefix after a leading zero is consumed without being
  written to the stream, then the digit loop runs.
\<close>

definition lex_digits :: "lexer \<Rightarrow> lexer" where
  "lex_digits lx =
     (let started_with_zero = (last_char lx = Some CHR ''0'');
          first = (case last_char lx of None \<Rightarrow> CHR 0xFF | Some c \<Rightarrow> c);
          lx1 = (advance (lx\<lparr>num_has_dot := False\<rparr>))\<lparr>num_base := 10\<rparr>;
          lx2 = (if started_with_zero then
                   (if last_char lx1 = Some CHR ''x'' then advance (lx1\<lparr>num_base := 16\<rparr>)
                    else if last_char lx1 = Some CHR ''b'' then advance (lx1\<lparr>num_base := 2\<rparr>)
                    else if last_char lx1 = Some CHR ''o'' then advance (lx1\<lparr>num_base := 8\<rparr>)
                    else lx1)
                 else lx1)
      in case num_while (num_base lx2) (num_has_dot lx2) (last_char lx2) (source lx2) of
           (s, h, l, r) \<Rightarrow>
             lx2\<lparr>num_has_dot := h, last_char := l, source := r, num_value := first # s\<rparr>)"

text \<open>The suffix of a number (lines 153 to 164).\<close>

definition lex_suffix :: "lexer \<Rightarrow> lexer" where
  "lex_suffix lx =
     (if last_char lx = Some CHR ''d'' \<or> last_char lx = Some CHR ''l'' \<or>
         last_char lx = Some CHR ''f'' \<or> last_char lx = Some CHR ''i'' \<or>
         last_char lx = Some CHR ''u'' \<or> last_char lx = Some CHR ''b''
      then advance (lx\<lparr>num_type := (case last_char lx of None \<Rightarrow> CHR 0xFF | Some c \<Rightarrow> c)\<rparr>)
      else if num_has_dot lx then lx\<lparr>num_type := CHR ''d''\<rparr>
      else lx\<lparr>num_type := CHR ''i''\<rparr>)"

definition lex_number :: "lexer \<Rightarrow> Token \<times> lexer" where
  "lex_number lx = (T_NUMBER, lex_suffix (lex_digits lx))"

text \<open>The string branch (lines 166 to 187).\<close>

definition lex_string :: "lexer \<Rightarrow> error + (Token \<times> lexer)" where
  "lex_string lx =
     (case string_loop [] lx of
        Inl err \<Rightarrow> Inl err
      | Inr (s, lx1) \<Rightarrow>
          (let lx2 = advance (lx1\<lparr>string_value := s\<rparr>) in
           if last_char lx2 = Some CHR ''c'' then Inr (T_STRING, advance (lx2\<lparr>string_type := C_STRING\<rparr>))
           else if last_char lx2 = Some CHR ''p''
             then Inr (T_STRING, advance (lx2\<lparr>string_type := PTR_CHAR_ARRAY\<rparr>))
           else Inr (T_STRING, lx2\<lparr>string_type := CHAR_ARRAY\<rparr>)))"

text \<open>The char branch (lines 188 to 201).\<close>

definition lex_char :: "lexer \<Rightarrow> error + (Token \<times> lexer)" where
  "lex_char lx =
     (let lx1 = advance lx in
      if last_char lx1 = None \<or> last_char lx1 = Some CHR 0x0A \<or> last_char lx1 = Some CHR 0x0D
      then error ''Unterminated char''
      else
        (case (if last_char lx1 = Some CHR 0x5C
               then (case next_char lx1 of (e, lx2) \<Rightarrow>
                       (case get_escape e lx2 of
                          Inl err \<Rightarrow> Inl err
                        | Inr (b, lx3) \<Rightarrow> Inr (lx3\<lparr>char_value := b\<rparr>)))
               else Inr (lx1\<lparr>char_value := (case last_char lx1 of None \<Rightarrow> CHR 0xFF | Some c \<Rightarrow> c)\<rparr>))
         of Inl err \<Rightarrow> Inl err
          | Inr lx4 \<Rightarrow>
              (case next_char lx4 of (q, lx5) \<Rightarrow>
                 if q \<noteq> Some CHR 0x27 then error ''char with length above 1''
                 else Inr (T_CHAR, advance lx5))))"

text \<open>The two \<^verbatim>\<open>switch\<close> statements built from \<^verbatim>\<open>eq_case\<close> (lines 210 to 232).\<close>

definition eq_case_first :: "char \<Rightarrow> Token option" where
  "eq_case_first curr_char =
     (if curr_char = CHR ''='' then Some T_EQEQ
      else if curr_char = CHR ''<'' then Some T_LEQ
      else if curr_char = CHR ''>'' then Some T_GEQ
      else if curr_char = CHR ''!'' then Some T_NEQ
      else if curr_char = CHR ''+'' then Some T_PLUSEQ
      else if curr_char = CHR ''-'' then Some T_MINEQ
      else if curr_char = CHR ''*'' then Some T_STAREQ
      else if curr_char = CHR ''/'' then Some T_SLASHEQ
      else if curr_char = CHR ''%'' then Some T_PERCENTEQ
      else if curr_char = CHR ''&'' then Some T_ANDEQ
      else if curr_char = CHR ''|'' then Some T_OREQ
      else None)"

definition eq_case_second :: "char \<Rightarrow> Token option" where
  "eq_case_second curr_char =
     (if curr_char = CHR ''='' then Some T_EQEQ
      else if curr_char = CHR ''|'' then Some T_LOR
      else if curr_char = CHR ''&'' then Some T_LAND
      else if curr_char = CHR ''<'' then Some T_LSHIFT
      else if curr_char = CHR ''>'' then Some T_RSHIFT
      else if curr_char = CHR '':'' then Some T_DOUBLE_COLON
      else None)"

text \<open>
  Operators and comments (lines 203 to 257). The result \<open>None\<close> is the statement
  \<^verbatim>\<open>return next_token();\<close> that follows a comment.
\<close>

definition lex_operator :: "char \<Rightarrow> lexer \<Rightarrow> Token option \<times> lexer" where
  "lex_operator curr_char lx =
     (let lx1 = advance lx in
      case (if last_char lx1 = Some CHR ''='' then eq_case_first curr_char else None) of
        Some t \<Rightarrow> (Some t, advance lx1)
      | None \<Rightarrow>
          (case (if Some curr_char = last_char lx1 then eq_case_second curr_char else None) of
             Some t \<Rightarrow> (Some t, advance lx1)
           | None \<Rightarrow>
               if curr_char = CHR ''/'' then
                 (if last_char lx1 = Some CHR ''/'' then
                    (case skip_line_comment (source lx1) of
                       (l, r) \<Rightarrow> (None, lx1\<lparr>last_char := l, source := r\<rparr>))
                  else if last_char lx1 = Some CHR ''*'' then
                    (case skip_block_comment (last_char lx1) (source lx1) of
                       (l, r) \<Rightarrow> (None, advance (lx1\<lparr>last_char := l, source := r\<rparr>)))
                  else (Some (T_ASCII curr_char), lx1))
               else (Some (T_ASCII curr_char), lx1)))"

text \<open>One run through the body of \<^verbatim>\<open>next_token\<close>.\<close>

definition next_token_body :: "(string \<Rightarrow> Token option) \<Rightarrow> lexer \<Rightarrow> error + (Token option \<times> lexer)" where
  "next_token_body keywords lx0 =
     (case skip_space (last_char lx0) (source lx0) of
        (l, r) \<Rightarrow>
          (let lx = lx0\<lparr>last_char := l, source := r\<rparr> in
           case l of
             None \<Rightarrow> Inr (Some T_EOF, lx)
           | Some c \<Rightarrow>
               if isalpha l \<or> c = CHR ''_'' then
                 (case lex_identifier keywords lx of (t, lx') \<Rightarrow> Inr (Some t, lx'))
               else if isdigit l then
                 (case lex_number lx of (t, lx') \<Rightarrow> Inr (Some t, lx'))
               else if c = CHR 0x22 then
                 (case lex_string lx of Inl err \<Rightarrow> Inl err | Inr (t, lx') \<Rightarrow> Inr (Some t, lx'))
               else if c = CHR 0x27 then
                 (case lex_char lx of Inl err \<Rightarrow> Inl err | Inr (t, lx') \<Rightarrow> Inr (Some t, lx'))
               else (case lex_operator c lx of (t, lx') \<Rightarrow> Inr (t, lx'))))"

text \<open>What is left to read: the lookahead, when it is not \<^verbatim>\<open>EOF\<close>, and the source.\<close>

definition pending :: "lexer \<Rightarrow> nat" where
  "pending lx = length (source lx) + (if last_char lx = None then 0 else 1)"

lemma pending_advance: "pending (advance lx) \<le> pending lx"
  by (auto simp: pending_def advance_def next_char_def split: list.splits)

lemma pending_advance_less: "last_char lx \<noteq> None \<Longrightarrow> pending (advance lx) < pending lx"
  by (auto simp: pending_def advance_def next_char_def split: list.splits)

lemma skip_space_pending:
  "skip_space l src = (l', r) \<Longrightarrow>
   length r + (if l' = None then 0 else 1) \<le> length src + (if l = None then 0 else 1)"
  by (induction l src arbitrary: l' r rule: skip_space.induct) (auto split: if_splits)

lemma skip_line_comment_length: "skip_line_comment src = (l, r) \<Longrightarrow> length r \<le> length src"
  by (induction src arbitrary: l r) (auto split: if_splits)

lemma skip_line_comment_pending:
  "skip_line_comment src = (l, r) \<Longrightarrow> length r + (if l = None then 0 else 1) \<le> length src"
  by (induction src arbitrary: l r) (auto split: if_splits)

lemma skip_block_comment_pending:
  "skip_block_comment l0 src = (l, r) \<Longrightarrow> length r + (if l = None then 0 else 1) \<le> length src"
  by (induction l0 src arbitrary: l r rule: skip_block_comment.induct) (auto split: if_splits)

lemma lex_operator_pending:
  assumes "lex_operator c lx = (None, lx')" and "last_char lx = Some c"
  shows "pending lx' < pending lx"
proof -
  let ?lx1 = "advance lx"
  have less: "pending ?lx1 < pending lx"
    using assms(2) by (simp add: pending_advance_less)
  have "pending lx' \<le> pending ?lx1"
  proof (cases "c = CHR ''/'' \<and> last_char ?lx1 = Some CHR ''/''")
    case True
    obtain l r where sk: "skip_line_comment (source ?lx1) = (l, r)"
      by (cases "skip_line_comment (source ?lx1)")
    have "lx' = ?lx1\<lparr>last_char := l, source := r\<rparr>"
      using assms(1) True sk
      by (simp add: lex_operator_def Let_def eq_case_first_def eq_case_second_def)
    then show ?thesis
      using skip_line_comment_pending [OF sk] True by (simp add: pending_def)
  next
    case False
    then have star: "c = CHR ''/'' \<and> last_char ?lx1 = Some CHR ''*''"
      using assms(1)
      by (auto simp: lex_operator_def Let_def eq_case_first_def eq_case_second_def
               split: option.splits if_splits prod.splits)
    obtain l r where sk: "skip_block_comment (last_char ?lx1) (source ?lx1) = (l, r)"
      by (cases "skip_block_comment (last_char ?lx1) (source ?lx1)")
    have "lx' = advance (?lx1\<lparr>last_char := l, source := r\<rparr>)"
      using assms(1) star sk
      by (simp add: lex_operator_def Let_def eq_case_first_def eq_case_second_def)
    moreover have "pending (?lx1\<lparr>last_char := l, source := r\<rparr>) \<le> pending ?lx1"
      using skip_block_comment_pending [OF sk] star by (simp add: pending_def)
    ultimately show ?thesis
      using pending_advance [of "?lx1\<lparr>last_char := l, source := r\<rparr>"] by simp
  qed
  with less show ?thesis by simp
qed

lemma next_token_body_pending:
  assumes "next_token_body keywords lx = Inr (None, lx')"
  shows "pending lx' < pending lx"
proof -
  obtain l r where sk: "skip_space (last_char lx) (source lx) = (l, r)"
    by (cases "skip_space (last_char lx) (source lx)")
  let ?lx = "lx\<lparr>last_char := l, source := r\<rparr>"
  have le: "pending ?lx \<le> pending lx"
    using skip_space_pending [OF sk] by (simp add: pending_def)
  from assms sk obtain c where c: "l = Some c" and op: "lex_operator c ?lx = (None, lx')"
    by (auto simp: next_token_body_def Let_def lex_number_def
             split: option.splits if_splits prod.splits sum.splits)
  have "pending lx' < pending ?lx"
    using lex_operator_pending [OF op] c by simp
  with le show ?thesis by simp
qed

text \<open>
  \<^verbatim>\<open>next_token\<close>: the body, run again after each comment (the two
  \<^verbatim>\<open>return next_token();\<close> statements).
\<close>

function next_token :: "(string \<Rightarrow> Token option) \<Rightarrow> lexer \<Rightarrow> error + (Token \<times> lexer)" where
  "next_token keywords lx =
     (case next_token_body keywords lx of
        Inl err \<Rightarrow> Inl err
      | Inr (Some t, lx') \<Rightarrow> Inr (t, lx')
      | Inr (None, lx') \<Rightarrow> next_token keywords lx')"
  by pat_completeness auto
termination
  by (relation "measure (\<lambda>(k, lx). pending lx)") (auto dest: next_token_body_pending)

declare next_token.simps [simp del]


text \<open>
  The globals of the lexer when the program starts (\<^verbatim>\<open>char last_char = ' ';\<close>, the other
  globals zero-initialised), reading \<open>src\<close>.
\<close>

definition lexer_init :: "string \<Rightarrow> lexer" where
  "lexer_init src =
     \<lparr>identifier_string = [], char_value = CHR 0x00, num_value = [], num_base = 0,
      num_has_dot = False, num_type = CHR 0x00, string_value = [], string_type = C_STRING,
      last_char = Some CHR '' '', source = src\<rparr>"


subsection \<open>Properties of the lexer\<close>


lemma skip_space_not_space: "\<not> isspace l \<Longrightarrow> skip_space l src = (l, src)"
  by (cases l; cases src) auto

lemma isdigit_not_space: "isdigit l \<Longrightarrow> \<not> isspace l"
  by (auto simp: isdigit_def isspace_def split: option.splits)

lemma isdigit_not_alpha: "isdigit l \<Longrightarrow> \<not> isalpha l \<and> l \<noteq> Some CHR ''_''"
  by (auto simp: isdigit_def isalpha_def split: option.splits)

lemma next_token_number:
  assumes "isdigit (last_char lx)"
  shows "next_token keywords lx = Inr (T_NUMBER, lex_suffix (lex_digits lx))"
proof -
  from assms obtain c where c: "last_char lx = Some c"
    by (auto simp: isdigit_def split: option.splits)
  have d: "isdigit (Some c)" "\<not> isalpha (Some c)" "c \<noteq> CHR ''_''"
    using assms isdigit_not_alpha [OF assms] by (simp_all add: c)
  have sk: "skip_space (Some c) (source lx) = (Some c, source lx)"
    using skip_space_not_space [OF isdigit_not_space [OF assms], of "source lx"] by (simp add: c)
  have upd: "lx\<lparr>last_char := Some c, source := source lx\<rparr> = lx"
    by (simp add: c [symmetric])
  have "next_token_body keywords lx = Inr (Some T_NUMBER, lex_suffix (lex_digits lx))"
    by (simp add: next_token_body_def c sk upd d lex_number_def)
  then show ?thesis
    by (simp add: next_token.simps)
qed







text \<open>
  C5 (code): the escape \<^verbatim>\<open>\x1F\<close>. \<^verbatim>\<open>get_escape\<close> reads the two hex digits and returns
  the byte \<open>0x15\<close> (21), not \<open>0x1F\<close> (31): \<^verbatim>\<open>xtoi\<close> maps the letter F to \<open>'F' - 'A' = 5\<close>
  where the digit value is 15. The string literal \<^verbatim>\<open>"\x1F"\<close> is lexed to that one byte.
\<close>

theorem get_escape_x1F:
  "get_escape (Some CHR ''x'') (lexer_init ''1F'') = Inr (CHR 0x15, lexer_init []) \<and>
   next_token Map.empty (lexer_init [CHR 0x22, CHR 0x5C, CHR ''x'', CHR ''1'', CHR ''F'', CHR 0x22]) =
     Inr (T_STRING, (lexer_init [])\<lparr>string_value := [CHR 0x15], string_type := CHAR_ARRAY,
                                     last_char := None\<rparr>)"
  by code_simp

theorem get_escape_x1F_witness:
  "\<exists>lx'. get_escape (Some CHR ''x'') (lexer_init ''1F'') = Inr (CHR 0x15, lx') \<and> source lx' = []"
  using get_escape_x1F by (simp add: lexer_init_def)





text \<open>
  C6 (as stated): the literal \<^verbatim>\<open>0b1f\<close>, base 2 with the floating suffix f, is lexed to a
  \<open>T_NUMBER\<close> token; the lexer reports no error.
\<close>

theorem lexer_accepts_binary_float:
  "next_token Map.empty (lexer_init ''0b1f'') =
     Inr (T_NUMBER, (lexer_init [])\<lparr>num_value := ''01'', num_base := 2, num_type := CHR ''f'',
                                     last_char := None\<rparr>)"
  by code_simp


section \<open>Types (types.cpp, not under src/)\<close>

text \<open>
  Modelled from the spec: types.cpp is not under src/. Section 3: a tagged variant with
  \<open>Number(bits, is_floating, is_signed)\<close>, \<open>Pointer(points_to)\<close>, \<open>Tuple(element types)\<close>,
  \<open>Array(elem, count)\<close>, \<open>Struct(name, fields)\<close>, \<open>Function(return_type, params, vararg)\<close>
  and \<open>Null\<close>. The constructors carry the names of the enumeration \<^verbatim>\<open>TypeType\<close>; the
  classes \<^verbatim>\<open>NumType\<close>, \<^verbatim>\<open>PointerType\<close>, ... that \<^verbatim>\<open>dynamic_cast\<close> selects are the
  constructors' arguments.
\<close>

datatype NumType = NumType (bits: nat) (is_floating: bool) (is_signed: bool)

datatype Type =
    Number NumType
  | Pointer Type
  | Tuple "Type list"
  | Array Type nat
  | Struct string "(string \<times> Type) list"
  | Function Type "Type list" bool
  | Null

text \<open>
  Modelled from the spec: \<^verbatim>\<open>Type::eq\<close> and \<^verbatim>\<open>Type::neq\<close> (types.cpp) are not under src/.
  Section 3: structural equality ignores \<open>Struct.name\<close>, and two numeric types are
  unequal if any of bits, is_floating, is_signed differ. \<open>unnamed\<close> erases every struct
  name; two types are equal when they agree after that.
\<close>

primrec unnamed :: "Type \<Rightarrow> Type" where
  "unnamed (Number n) = Number n"
| "unnamed (Pointer t) = Pointer (unnamed t)"
| "unnamed (Tuple ts) = Tuple (map unnamed ts)"
| "unnamed (Array t n) = Array (unnamed t) n"
| "unnamed (Struct name fs) = Struct [] (map (map_prod id unnamed) fs)"
| "unnamed (Function r ps vararg) = Function (unnamed r) (map unnamed ps) vararg"
| "unnamed Null = Null"

definition eq :: "Type \<Rightarrow> Type \<Rightarrow> bool" where
  "eq a b = (unnamed a = unnamed b)"

definition neq :: "Type \<Rightarrow> Type \<Rightarrow> bool" where
  "neq a b = (\<not> eq a b)"

text \<open>
  Modelled from the spec: \<^verbatim>\<open>Type::llvm_type\<close> (types.cpp) is not under src/. Section 4.2:
  \<open>backend(t)\<close> is an opaque, deterministic mapping into the backend's types; the backend
  type of \<open>t\<close> is kept symbolic. \<^verbatim>\<open>float_64_type\<close> and \<^verbatim>\<open>int_8_type\<close> are the globals
  of types.cpp for the 64-bit float and the 8-bit integer.
\<close>

datatype LLVMTypeRef = LLVMTypeOf Type

definition llvm_type :: "Type \<Rightarrow> LLVMTypeRef" where
  "llvm_type t = LLVMTypeOf t"

definition float_64_type :: LLVMTypeRef where
  "float_64_type = llvm_type (Number (NumType 64 True True))"

definition int_8_type :: LLVMTypeRef where
  "int_8_type = llvm_type (Number (NumType 8 False False))"

section \<open>The IR builder\<close>

text \<open>
  The backend is the opaque interface of section 6 of the spec. A constant is a term; an
  \<^verbatim>\<open>LLVMBuild*\<close> call appends one instruction at the insertion point and returns the
  reference \<open>Inst n\<close> to its result, \<open>n\<close> being the number the builder gave it. Value and
  block names (the last argument of the calls) are labels only and are not recorded.
\<close>

datatype LLVMValueRef =
    LLVMConstInt LLVMTypeRef int bool
  | LLVMConstReal LLVMTypeRef real
  | LLVMConstNull LLVMTypeRef
  | LLVMConstAllOnes LLVMTypeRef
  | LLVMConstRealOfStringAndSize LLVMTypeRef string
  | LLVMConstIntOfStringAndSize LLVMTypeRef string nat
  | LLVMConstString string bool
  | LLVMConstGEP2 LLVMTypeRef LLVMValueRef "LLVMValueRef list"
  | LLVMGetUndef LLVMTypeRef
  | Global nat
  | Inst nat

datatype LLVMOpcode = LLVMFPToSI | LLVMFPToUI | LLVMSIToFP | LLVMUIToFP

datatype LLVMRealPredicate =
  LLVMRealONE | LLVMRealUNE | LLVMRealULT | LLVMRealUGT | LLVMRealULE | LLVMRealUGE | LLVMRealUEQ

datatype LLVMIntPredicate =
    LLVMIntEQ | LLVMIntNE | LLVMIntSLT | LLVMIntULT | LLVMIntSGT | LLVMIntUGT
  | LLVMIntSLE | LLVMIntULE | LLVMIntSGE | LLVMIntUGE

text \<open>A basic block is the number given to it when it was created.\<close>

type_synonym LLVMBasicBlockRef = nat

datatype Instr =
    LLVMBuildLoad2 LLVMTypeRef LLVMValueRef
  | LLVMBuildStore LLVMValueRef LLVMValueRef
  | LLVMBuildAlloca LLVMTypeRef
  | LLVMBuildGEP2 LLVMTypeRef LLVMValueRef "LLVMValueRef list"
  | LLVMBuildStructGEP2 LLVMTypeRef LLVMValueRef nat
  | LLVMBuildFAdd LLVMValueRef LLVMValueRef
  | LLVMBuildFSub LLVMValueRef LLVMValueRef
  | LLVMBuildFMul LLVMValueRef LLVMValueRef
  | LLVMBuildFDiv LLVMValueRef LLVMValueRef
  | LLVMBuildFRem LLVMValueRef LLVMValueRef
  | LLVMBuildAdd LLVMValueRef LLVMValueRef
  | LLVMBuildSub LLVMValueRef LLVMValueRef
  | LLVMBuildMul LLVMValueRef LLVMValueRef
  | LLVMBuildSDiv LLVMValueRef LLVMValueRef
  | LLVMBuildUDiv LLVMValueRef LLVMValueRef
  | LLVMBuildSRem LLVMValueRef LLVMValueRef
  | LLVMBuildURem LLVMValueRef LLVMValueRef
  | LLVMBuildAnd LLVMValueRef LLVMValueRef
  | LLVMBuildOr LLVMValueRef LLVMValueRef
  | LLVMBuildICmp LLVMIntPredicate LLVMValueRef LLVMValueRef
  | LLVMBuildFCmp LLVMRealPredicate LLVMValueRef LLVMValueRef
  | LLVMBuildCast LLVMOpcode LLVMValueRef LLVMTypeRef
  | LLVMBuildFPCast LLVMValueRef LLVMTypeRef
  | LLVMBuildIntCast2 LLVMValueRef LLVMTypeRef bool
  | LLVMBuildIntToPtr LLVMValueRef LLVMTypeRef
  | LLVMBuildPointerCast LLVMValueRef LLVMTypeRef
  | LLVMBuildPtrToInt LLVMValueRef LLVMTypeRef
  | LLVMBuildBitCast LLVMValueRef LLVMTypeRef
  | LLVMBuildInsertValue LLVMValueRef LLVMValueRef nat
  | LLVMBuildExtractValue LLVMValueRef nat
  | LLVMBuildCall2 LLVMTypeRef LLVMValueRef "LLVMValueRef list"
  | LLVMBuildCondBr LLVMValueRef LLVMBasicBlockRef LLVMBasicBlockRef
  | LLVMBuildBr LLVMBasicBlockRef
  | LLVMBuildPhi LLVMTypeRef "(LLVMValueRef \<times> LLVMBasicBlockRef) list"

text \<open>
  The insertion point: the end of a block (\<^verbatim>\<open>LLVMPositionBuilderAtEnd\<close>) or just before
  an instruction (\<^verbatim>\<open>LLVMPositionBuilderBefore\<close>).
\<close>

datatype Position = AtEnd LLVMBasicBlockRef | Before nat


section \<open>Values and casts (src/unnamed/part_002, included as values.cpp)\<close>

text \<open>The classes derived from \<^verbatim>\<open>Value\<close>, each with the fields of its constructor.\<close>

datatype Value =
    ConstValue Type LLVMValueRef
  | ConstValueWithPtr Type LLVMValueRef LLVMValueRef
  | IntValue NumType nat
  | FuncValue Type LLVMValueRef
  | BasicLoadValue Type LLVMValueRef
  | CastValue Value Type
  | NamedValue Value string

text \<open>
  The state of code generation: the builder (the next free number, the instructions in
  the order of their blocks, each with its block and its number, and the insertion
  point), the blocks appended to the function being built, the globals of the module with
  their initializers, and the table \<^verbatim>\<open>curr_named_variables\<close> of the expression nodes,
  from names to \<^verbatim>\<open>Value *\<close> (the first entry for a name is its binding; \<open>None\<close> is
  the null pointer).
\<close>

record codegen =
  next_ref :: nat
  insts :: "(LLVMBasicBlockRef \<times> nat \<times> Instr) list"
  pos :: Position
  func_blocks :: "LLVMBasicBlockRef list"
  globals :: "(nat \<times> LLVMTypeRef \<times> LLVMValueRef option) list"
  curr_named_variables :: "(string \<times> Value option) list"

fun insert_before :: "nat \<Rightarrow> nat \<Rightarrow> Instr \<Rightarrow> (LLVMBasicBlockRef \<times> nat \<times> Instr) list
    \<Rightarrow> (LLVMBasicBlockRef \<times> nat \<times> Instr) list" where
  "insert_before k n i [] = []"
| "insert_before k n i ((b, m, j) # rest) =
     (if m = k then (b, n, i) # (b, m, j) # rest else (b, m, j) # insert_before k n i rest)"

text \<open>An \<^verbatim>\<open>LLVMBuild*\<close> call: the instruction goes to the insertion point.\<close>

definition build :: "Instr \<Rightarrow> codegen \<Rightarrow> LLVMValueRef \<times> codegen" where
  "build i cg =
     (Inst (next_ref cg),
      cg\<lparr>next_ref := next_ref cg + 1,
         insts := (case pos cg of
                     AtEnd b \<Rightarrow> insts cg @ [(b, next_ref cg, i)]
                   | Before k \<Rightarrow> insert_before k (next_ref cg) i (insts cg))\<rparr>)"

text \<open>
  The block of the insertion point; before an instruction, the block that holds it (block
  0 stands for the block of an instruction that does not exist).
\<close>

definition LLVMGetInsertBlock :: "codegen \<Rightarrow> LLVMBasicBlockRef" where
  "LLVMGetInsertBlock cg =
     (case pos cg of
        AtEnd b \<Rightarrow> b
      | Before k \<Rightarrow> (case find (\<lambda>e. fst (snd e) = k) (insts cg) of Some e \<Rightarrow> fst e | None \<Rightarrow> 0))"

definition LLVMGetLastInstruction :: "LLVMBasicBlockRef \<Rightarrow> codegen \<Rightarrow> nat option" where
  "LLVMGetLastInstruction bb cg =
     (case filter (\<lambda>e. fst e = bb) (insts cg) of [] \<Rightarrow> None | e # es \<Rightarrow> Some (fst (snd (last (e # es)))))"

definition LLVMPositionBuilderAtEnd :: "LLVMBasicBlockRef \<Rightarrow> codegen \<Rightarrow> codegen" where
  "LLVMPositionBuilderAtEnd bb cg = cg\<lparr>pos := AtEnd bb\<rparr>"

definition LLVMPositionBuilderBefore :: "nat \<Rightarrow> codegen \<Rightarrow> codegen" where
  "LLVMPositionBuilderBefore k cg = cg\<lparr>pos := Before k\<rparr>"

definition LLVMAppendBasicBlockInContext :: "codegen \<Rightarrow> LLVMBasicBlockRef \<times> codegen" where
  "LLVMAppendBasicBlockInContext cg =
     (next_ref cg, cg\<lparr>next_ref := next_ref cg + 1, func_blocks := func_blocks cg @ [next_ref cg]\<rparr>)"

definition LLVMCreateBasicBlockInContext :: "codegen \<Rightarrow> LLVMBasicBlockRef \<times> codegen" where
  "LLVMCreateBasicBlockInContext cg = (next_ref cg, cg\<lparr>next_ref := next_ref cg + 1\<rparr>)"

definition LLVMAppendExistingBasicBlock :: "LLVMBasicBlockRef \<Rightarrow> codegen \<Rightarrow> codegen" where
  "LLVMAppendExistingBasicBlock bb cg = cg\<lparr>func_blocks := func_blocks cg @ [bb]\<rparr>"

definition LLVMAddGlobal :: "LLVMTypeRef \<Rightarrow> codegen \<Rightarrow> LLVMValueRef \<times> codegen" where
  "LLVMAddGlobal ty cg =
     (Global (next_ref cg),
      cg\<lparr>next_ref := next_ref cg + 1, globals := globals cg @ [(next_ref cg, ty, None)]\<rparr>)"

definition LLVMSetInitializer :: "LLVMValueRef \<Rightarrow> LLVMValueRef \<Rightarrow> codegen \<Rightarrow> codegen" where
  "LLVMSetInitializer glob v cg =
     cg\<lparr>globals := map (\<lambda>g. if Global (fst g) = glob then (fst g, fst (snd g), Some v) else g)
                        (globals cg)\<rparr>"

definition LLVMAddIncoming :: "LLVMValueRef \<Rightarrow> (LLVMValueRef \<times> LLVMBasicBlockRef) list \<Rightarrow> codegen \<Rightarrow> codegen" where
  "LLVMAddIncoming phi incoming cg =
     cg\<lparr>insts := map (\<lambda>e. case snd (snd e) of
                              LLVMBuildPhi ty inc \<Rightarrow>
                                if Inst (fst (snd e)) = phi
                                then (fst e, fst (snd e), LLVMBuildPhi ty (inc @ incoming))
                                else e
                            | _ \<Rightarrow> e)
                      (insts cg)\<rparr>"

subsection \<open>The methods of \<^verbatim>\<open>Value\<close>\<close>

primrec get_type :: "Value \<Rightarrow> Type" where
  "get_type (ConstValue type val) = type"
| "get_type (ConstValueWithPtr type ptr val) = type"
| "get_type (IntValue type val) = Number type"
| "get_type (FuncValue type func) = type"
| "get_type (BasicLoadValue type variable) = type"
| "get_type (CastValue src to) = to"
| "get_type (NamedValue val name) = get_type val"

primrec has_ptr :: "Value \<Rightarrow> bool" where
  "has_ptr (ConstValue type val) = False"
| "has_ptr (ConstValueWithPtr type ptr val) = True"
| "has_ptr (IntValue type val) = False"
| "has_ptr (FuncValue type func) = True"
| "has_ptr (BasicLoadValue type variable) = True"
| "has_ptr (CastValue src to) = False"
| "has_ptr (NamedValue val name) = has_ptr val"

text \<open>\<^verbatim>\<open>gen_ptr\<close> builds nothing; \<^verbatim>\<open>NamedValue\<close> only names the pointer it passes on.\<close>

primrec gen_ptr :: "Value \<Rightarrow> error + LLVMValueRef" where
  "gen_ptr (ConstValue type val) = error ''Const values can't be pointered''"
| "gen_ptr (ConstValueWithPtr type ptr val) = Inr ptr"
| "gen_ptr (IntValue type val) = error ''Int values can't be pointered''"
| "gen_ptr (FuncValue type func) = Inr func"
| "gen_ptr (BasicLoadValue type variable) = Inr variable"
| "gen_ptr (CastValue src to) = error ''Can't get the pointer to a cast''"
| "gen_ptr (NamedValue val name) = gen_ptr val"

definition cast_to :: "Value \<Rightarrow> Type \<Rightarrow> Value" where
  "cast_to this to = CastValue this to"

subsection \<open>The cast engine\<close>

text \<open>
  The diagnostics of the casts print the two types with \<^verbatim>\<open>Type::stringify\<close> (types.cpp,
  not under src/); the text of an error is kept without the printed types.
\<close>

definition gen_num_cast :: "LLVMValueRef \<Rightarrow> NumType \<Rightarrow> Type \<Rightarrow> codegen \<Rightarrow> error + (LLVMValueRef \<times> codegen)" where
  "gen_num_cast v a b cg =
     (case b of
        Number num \<Rightarrow>
          if bits num = 1 then
            (if is_floating a
             then Inr (build (LLVMBuildFCmp LLVMRealUNE v (LLVMConstNull (llvm_type (Number a)))) cg)
             else Inr (build (LLVMBuildICmp LLVMIntNE v (LLVMConstNull (llvm_type (Number a)))) cg))
          else if \<not> is_floating num \<and> is_floating a then
            Inr (build (LLVMBuildCast (if is_signed a then LLVMFPToSI else LLVMFPToUI) v (llvm_type b)) cg)
          else if is_floating num \<and> \<not> is_floating a then
            Inr (build (LLVMBuildCast (if is_signed a then LLVMSIToFP else LLVMUIToFP) v (llvm_type b)) cg)
          else if is_floating a then Inr (build (LLVMBuildFPCast v (llvm_type (Number num))) cg)
          else Inr (build (LLVMBuildIntCast2 v (llvm_type (Number num)) (is_signed a)) cg)
      | Pointer p \<Rightarrow> Inr (build (LLVMBuildIntToPtr v (llvm_type b)) cg)
      | _ \<Rightarrow> error '' can't be casted to '')"

definition gen_ptr_cast :: "LLVMValueRef \<Rightarrow> Type \<Rightarrow> Type \<Rightarrow> codegen \<Rightarrow> error + (LLVMValueRef \<times> codegen)" where
  "gen_ptr_cast v a_points_to b cg =
     (case b of
        Pointer p \<Rightarrow> Inr (build (LLVMBuildPointerCast v (llvm_type b)) cg)
      | Number n \<Rightarrow> Inr (build (LLVMBuildPtrToInt v (llvm_type b)) cg)
      | _ \<Rightarrow> error '' can't be casted to '')"

text \<open>
  \<^verbatim>\<open>NumType(false)\<close>, the type of the two indices: the constructor with one argument is
  declared in types.cpp (not under src/); it is taken as the unsigned 64-bit integer.
  Only the value 0 of the indices matters below, not their width.
\<close>

definition NumType_of_signed :: "bool \<Rightarrow> NumType" where
  "NumType_of_signed sg = NumType 64 False sg"

definition gen_arr_cast :: "Value \<Rightarrow> Type \<Rightarrow> nat \<Rightarrow> Type \<Rightarrow> codegen \<Rightarrow> error + (LLVMValueRef \<times> codegen)" where
  "gen_arr_cast v a_elem a_count b cg =
     (case b of
        Pointer points_to \<Rightarrow>
          if neq points_to a_elem
          then error ''Array can't be casted to pointer with different type, ''
          else if \<not> has_ptr v
          then error ''const arrays can't be automatically casted to a pointer to their elements.''
          else
            (case gen_ptr v of
               Inl err \<Rightarrow> Inl err
             | Inr p \<Rightarrow>
                 Inr (build (LLVMBuildGEP2 (llvm_type (Array a_elem a_count)) p
                        [LLVMConstInt (llvm_type (Number (NumType_of_signed False))) 0 False,
                         LLVMConstInt (llvm_type (Number (NumType_of_signed False))) 0 False]) cg))
      | _ \<Rightarrow> error '' can't be casted to '')"

text \<open>
  The loop of \<^verbatim>\<open>gen_tuple_cast\<close> over the members, one
  \<^verbatim>\<open>LLVMBuildExtractValue\<close> and one \<^verbatim>\<open>LLVMBuildInsertValue\<close> for each index.
\<close>

fun insert_values :: "LLVMValueRef \<Rightarrow> nat list \<Rightarrow> LLVMValueRef \<Rightarrow> codegen \<Rightarrow> LLVMValueRef \<times> codegen" where
  "insert_values tup_v [] arr_v cg = (arr_v, cg)"
| "insert_values tup_v (i # is) arr_v cg =
     (case build (LLVMBuildExtractValue tup_v i) cg of
        (x, cg1) \<Rightarrow>
          (case build (LLVMBuildInsertValue arr_v x i) cg1 of
             (arr_v', cg2) \<Rightarrow> insert_values tup_v is arr_v' cg2))"

fun gen_val :: "Value \<Rightarrow> codegen \<Rightarrow> error + (LLVMValueRef \<times> codegen)"
  and cast :: "Value \<Rightarrow> Type \<Rightarrow> codegen \<Rightarrow> error + (LLVMValueRef \<times> codegen)"
  and gen_tuple_cast :: "Value \<Rightarrow> Type list \<Rightarrow> Type \<Rightarrow> codegen \<Rightarrow> error + (LLVMValueRef \<times> codegen)"
where
  "gen_val (ConstValue type val) cg = Inr (val, cg)"
| "gen_val (ConstValueWithPtr type ptr val) cg = Inr (val, cg)"
| "gen_val (IntValue type val) cg =
     Inr (LLVMConstInt (llvm_type (Number type)) (int val) (is_signed type), cg)"
| "gen_val (FuncValue type func) cg = Inr (func, cg)"
| "gen_val (BasicLoadValue type variable) cg = Inr (build (LLVMBuildLoad2 (llvm_type type) variable) cg)"
| "gen_val (CastValue src to) cg = cast src to cg"
| "gen_val (NamedValue val name) cg = gen_val val cg"
| "cast src to cg =
     (if eq (get_type src) to then
        (case gen_val src cg of
           Inl err \<Rightarrow> Inl err
         | Inr (v, cg1) \<Rightarrow> Inr (build (LLVMBuildBitCast v (llvm_type to)) cg1))
      else
        (case get_type src of
           Number num \<Rightarrow>
             (case gen_val src cg of
                Inl err \<Rightarrow> Inl err
              | Inr (v, cg1) \<Rightarrow> gen_num_cast v num to cg1)
         | Pointer points_to \<Rightarrow>
             (case gen_val src cg of
                Inl err \<Rightarrow> Inl err
              | Inr (v, cg1) \<Rightarrow> gen_ptr_cast v points_to to cg1)
         | Array elem count \<Rightarrow> gen_arr_cast src elem count to cg
         | Tuple types \<Rightarrow> gen_tuple_cast src types to cg
         | Null \<Rightarrow> Inr (LLVMConstNull (llvm_type to), cg)
         | _ \<Rightarrow> error ''Invalid cast from ''))"
| "gen_tuple_cast v types b cg =
     (case b of
        Array elem count \<Rightarrow>
          if list_ex (\<lambda>member. neq member elem) types
          then error ''Tuple can't be casted to array with different type, ''
          else if count \<noteq> length types
          then error ''Tuple can't be casted to array with different size, ''
          else if has_ptr v then
            (case gen_ptr v of
               Inl err \<Rightarrow> Inl err
             | Inr p \<Rightarrow>
                 (case build (LLVMBuildBitCast p (llvm_type b)) cg of
                    (c, cg1) \<Rightarrow> Inr (build (LLVMBuildLoad2 (llvm_type b) c) cg1)))
          else
            (case gen_val v cg of
               Inl err \<Rightarrow> Inl err
             | Inr (tup_v, cg1) \<Rightarrow>
                 Inr (insert_values tup_v [0 ..< length types] (LLVMGetUndef (llvm_type b)) cg1))
      | _ \<Rightarrow> error '' can't be casted to '')"

declare cast.simps [simp del] gen_tuple_cast.simps [simp del]

text \<open>
  \<^verbatim>\<open>gen_phi\<close>: the two values are generated just before the terminators of their blocks,
  the phi is built at the insertion point that was current. For a block with no
  instruction \<^verbatim>\<open>LLVMGetLastInstruction\<close> is null and the builder is positioned before a
  null instruction (\<open>Crash\<close>).
\<close>

definition gen_phi :: "LLVMBasicBlockRef \<Rightarrow> Value \<Rightarrow> LLVMBasicBlockRef \<Rightarrow> Value \<Rightarrow> codegen \<Rightarrow> error + (Value \<times> codegen)" where
  "gen_phi a_bb a_v b_bb b_v cg =
     (if neq (get_type a_v) (get_type b_v) then error ''conditional's values must have the same type''
      else
        (case LLVMGetLastInstruction a_bb cg of
           None \<Rightarrow> Inl Crash
         | Some ta \<Rightarrow>
             (case gen_val a_v (LLVMPositionBuilderBefore ta cg) of
                Inl err \<Rightarrow> Inl err
              | Inr (a_val, cg1) \<Rightarrow>
                  (case LLVMGetLastInstruction b_bb cg1 of
                     None \<Rightarrow> Inl Crash
                   | Some tb \<Rightarrow>
                       (case gen_val b_v (LLVMPositionBuilderBefore tb cg1) of
                          Inl err \<Rightarrow> Inl err
                        | Inr (b_val, cg2) \<Rightarrow>
                            (case build (LLVMBuildPhi (llvm_type (get_type a_v)) [])
                                    (LLVMPositionBuilderAtEnd (LLVMGetInsertBlock cg) cg2) of
                               (load, cg3) \<Rightarrow>
                                 Inr (ConstValue (get_type a_v) load,
                                      LLVMAddIncoming load [(a_val, a_bb), (b_val, b_bb)] cg3)))))))"


subsection \<open>Properties of values and casts\<close>

lemma eq_refl: "eq t t"
  by (simp add: eq_def)

lemma eq_sym: "eq a b = eq b a"
  by (auto simp: eq_def)

lemma has_ptr_gen_ptr: "has_ptr v \<Longrightarrow> \<exists>p. gen_ptr v = Inr p"
  by (induction v) simp_all

lemma no_ptr_gen_ptr: "\<not> has_ptr v \<Longrightarrow> \<exists>msg. gen_ptr v = Inl (Error msg)"
  by (induction v) (simp_all add: error_def)

lemma cast_Array_Pointer:
  "get_type v = Array T N \<Longrightarrow> cast v (Pointer U) cg = gen_arr_cast v T N (Pointer U) cg"
  by (simp add: cast.simps eq_def)

text \<open>
  C9: for a value \<open>v\<close> of type \<open>Array(T, N)\<close>, materializing its cast to \<open>Pointer(U)\<close>
  succeeds exactly when \<open>T\<close> equals \<open>U\<close> and \<open>v\<close> has an address; it then builds one GEP
  into that address with two zero indices; otherwise it is a fatal error.
\<close>

theorem array_to_pointer_cast:
  assumes "get_type v = Array T N"
  shows "gen_val (cast_to v (Pointer U)) cg = cast v (Pointer U) cg \<and>
         ((\<exists>r. cast v (Pointer U) cg = Inr r) = (eq T U \<and> has_ptr v)) \<and>
         (eq T U \<and> has_ptr v \<longrightarrow>
            (\<exists>p ty. gen_ptr v = Inr p \<and>
               cast v (Pointer U) cg =
                 Inr (build (LLVMBuildGEP2 (llvm_type (Array T N)) p
                        [LLVMConstInt ty 0 False, LLVMConstInt ty 0 False]) cg))) \<and>
         (\<not> (eq T U \<and> has_ptr v) \<longrightarrow> (\<exists>msg. cast v (Pointer U) cg = Inl (Error msg)))"
proof -
  have c: "cast v (Pointer U) cg = gen_arr_cast v T N (Pointer U) cg"
    using assms by (rule cast_Array_Pointer)
  have ok: "\<exists>p ty. gen_ptr v = Inr p \<and>
               cast v (Pointer U) cg =
                 Inr (build (LLVMBuildGEP2 (llvm_type (Array T N)) p
                        [LLVMConstInt ty 0 False, LLVMConstInt ty 0 False]) cg)"
    if "eq T U" and "has_ptr v"
  proof -
    from that(2) obtain p where p: "gen_ptr v = Inr p"
      using has_ptr_gen_ptr by blast
    have "neq U T = False"
      using that(1) by (simp add: neq_def eq_sym)
    then have "cast v (Pointer U) cg =
                 Inr (build (LLVMBuildGEP2 (llvm_type (Array T N)) p
                        [LLVMConstInt (llvm_type (Number (NumType_of_signed False))) 0 False,
                         LLVMConstInt (llvm_type (Number (NumType_of_signed False))) 0 False]) cg)"
      using that(2) p by (simp add: c gen_arr_cast_def)
    with p show ?thesis by blast
  qed
  have bad: "\<exists>msg. cast v (Pointer U) cg = Inl (Error msg)" if "\<not> (eq T U \<and> has_ptr v)"
  proof (cases "eq T U")
    case True
    with that have "\<not> has_ptr v" by simp
    moreover have "neq U T = False"
      using True by (simp add: neq_def eq_sym)
    ultimately show ?thesis
      by (simp add: c gen_arr_cast_def error_def)
  next
    case False
    then have "neq U T"
      by (simp add: neq_def eq_sym)
    then show ?thesis
      by (simp add: c gen_arr_cast_def error_def)
  qed
  have iff: "(\<exists>r. cast v (Pointer U) cg = Inr r) = (eq T U \<and> has_ptr v)"
  proof
    assume "\<exists>r. cast v (Pointer U) cg = Inr r"
    then show "eq T U \<and> has_ptr v"
      using bad by (cases "eq T U \<and> has_ptr v") auto
  next
    assume "eq T U \<and> has_ptr v"
    then show "\<exists>r. cast v (Pointer U) cg = Inr r"
      using ok by blast
  qed
  have "gen_val (cast_to v (Pointer U)) cg = cast v (Pointer U) cg"
    by (simp add: cast_to_def)
  with iff ok bad show ?thesis by blast
qed

text \<open>The state before anything is built: the insertion point at the end of block 0.\<close>

definition codegen_init :: codegen where
  "codegen_init = \<lparr>next_ref = 1, insts = [], pos = AtEnd 0, func_blocks = [0], globals = [],
                    curr_named_variables = []\<rparr>"

theorem array_to_pointer_cast_witness:
  "get_type (BasicLoadValue (Array (Number (NumType 8 False False)) 3) (Global 0)) =
     Array (Number (NumType 8 False False)) 3 \<and>
   eq (Number (NumType 8 False False)) (Number (NumType 8 False False)) \<and>
   has_ptr (BasicLoadValue (Array (Number (NumType 8 False False)) 3) (Global 0)) \<and>
   (\<exists>ty. cast (BasicLoadValue (Array (Number (NumType 8 False False)) 3) (Global 0))
            (Pointer (Number (NumType 8 False False))) codegen_init =
          Inr (build (LLVMBuildGEP2 (llvm_type (Array (Number (NumType 8 False False)) 3)) (Global 0)
                 [LLVMConstInt ty 0 False, LLVMConstInt ty 0 False]) codegen_init)) \<and>
   \<not> has_ptr (ConstValue (Array (Number (NumType 8 False False)) 3) (Global 0)) \<and>
   (\<exists>msg. cast (ConstValue (Array (Number (NumType 8 False False)) 3) (Global 0))
            (Pointer (Number (NumType 8 False False))) codegen_init = Inl (Error msg))"
proof -
  let ?i8 = "Number (NumType 8 False False)"
  have "\<exists>p ty. gen_ptr (BasicLoadValue (Array ?i8 3) (Global 0)) = Inr p \<and>
          cast (BasicLoadValue (Array ?i8 3) (Global 0)) (Pointer ?i8) codegen_init =
            Inr (build (LLVMBuildGEP2 (llvm_type (Array ?i8 3)) p
                   [LLVMConstInt ty 0 False, LLVMConstInt ty 0 False]) codegen_init)"
    using array_to_pointer_cast [of "BasicLoadValue (Array ?i8 3) (Global 0)" ?i8 3 ?i8 codegen_init]
    by (simp add: eq_refl)
  then have a: "\<exists>ty. cast (BasicLoadValue (Array ?i8 3) (Global 0)) (Pointer ?i8) codegen_init =
            Inr (build (LLVMBuildGEP2 (llvm_type (Array ?i8 3)) (Global 0)
                   [LLVMConstInt ty 0 False, LLVMConstInt ty 0 False]) codegen_init)"
    by auto
  have b: "\<exists>msg. cast (ConstValue (Array ?i8 3) (Global 0)) (Pointer ?i8) codegen_init = Inl (Error msg)"
    using array_to_pointer_cast [of "ConstValue (Array ?i8 3) (Global 0)" ?i8 3 ?i8 codegen_init]
    by simp
  from a b show ?thesis
    by (simp add: eq_refl)
qed

text \<open>
  C10: \<open>v.cast_to(t)\<close> is a value of type \<open>t\<close>, whatever \<open>v\<close> and \<open>t\<close> are; it has no
  address (\<^verbatim>\<open>has_ptr\<close> is false and \<^verbatim>\<open>gen_ptr\<close> is a fatal error) even when \<open>v\<close> has
  one; the coercion, with its failures, is what loading the value does.
\<close>

theorem cast_to_no_address:
  "get_type (cast_to v t) = t \<and>
   has_ptr (cast_to v t) = False \<and>
   gen_ptr (cast_to v t) = Inl (Error ''Can't get the pointer to a cast'') \<and>
   gen_val (cast_to v t) cg = cast v t cg \<and>
   has_ptr (BasicLoadValue (Struct ''S'' []) (Global 0)) \<and>
   has_ptr (cast_to (BasicLoadValue (Struct ''S'' []) (Global 0)) Null) = False \<and>
   gen_val (cast_to (BasicLoadValue (Struct ''S'' []) (Global 0)) Null) codegen_init =
     Inl (Error ''Invalid cast from '')"
  by (simp add: cast_to_def cast.simps error_def eq_def)


section \<open>The expression nodes (src/unnamed/part_001)\<close>

text \<open>
  This file is of an earlier revision than the values above. Where it differs, the
  calls are read as follows: \<^verbatim>\<open>gen_load()\<close> is \<^verbatim>\<open>gen_val()\<close>;
  \<^verbatim>\<open>new ConstValue(type, val, nullptr)\<close> is \<open>ConstValue type val\<close>;
  \<^verbatim>\<open>new BasicLoadValue(ptr, type)\<close> is \<open>BasicLoadValue type ptr\<close>; the cast
  \<^verbatim>\<open>cast(value, from, to)\<close> of an \<^verbatim>\<open>LLVMValueRef\<close> with a \<^verbatim>\<open>NumType\<close> source is
  \<^verbatim>\<open>gen_num_cast(value, from, to)\<close>.
\<close>

text \<open>
  The expression classes with their fields; \<^verbatim>\<open>char *\<close> with its length is a string,
  an array with its length a list, a pointer that may be null an option. The
  \<^verbatim>\<open>FunctionType *func_t\<close> of a call is kept as its return type, parameter types and
  vararg flag.
\<close>

datatype ExprAST =
    NumberExprAST string nat NumType
  | BoolExprAST bool Type
  | CastExprAST ExprAST Type Type
  | VariableExprAST string Type
  | LetExprAST string Type "ExprAST option" bool bool
  | CharExprAST char
  | StringExprAST string Type Type Type
  | BinaryExprAST Token ExprAST ExprAST Type
  | UnaryExprAST char ExprAST Type
  | CallExprAST Type "Type list" bool ExprAST "ExprAST list" Type
  | IndexExprAST ExprAST ExprAST Type
  | PropAccessExprAST ExprAST Type nat string Type
  | MethodCallExprAST ExprAST
  | NewExprAST Type Type "nat list" "ExprAST list"
  | BlockExprAST "ExprAST list" Type
  | NullExprAST Type
  | IfExprAST ExprAST ExprAST ExprAST Type
  | WhileExprAST ExprAST ExprAST ExprAST Type

text \<open>\<^verbatim>\<open>ExprAST::get_type\<close>, the \<open>result_type()\<close> of the spec.\<close>

primrec result_type :: "ExprAST \<Rightarrow> Type" where
  "result_type (NumberExprAST val base type) = Number type"
| "result_type (BoolExprAST b type) = type"
| "result_type (CastExprAST v from to) = to"
| "result_type (VariableExprAST name type) = type"
| "result_type (LetExprAST ident type v constant global) = type"
| "result_type (CharExprAST charr) = Number (NumType 8 False False)"
| "result_type (StringExprAST chars c_type t_type p_type) = p_type"
| "result_type (BinaryExprAST op LHS RHS type) = type"
| "result_type (UnaryExprAST op operand type) = type"
| "result_type (CallExprAST return_type arguments vararg called args type) = type"
| "result_type (IndexExprAST v index type) = type"
| "result_type (PropAccessExprAST src source_type index key type) = type"
| "result_type (MethodCallExprAST underlying_call) = result_type underlying_call"
| "result_type (NewExprAST s_type p_type indexes vals) = p_type"
| "result_type (BlockExprAST exprs type) = type"
| "result_type (NullExprAST type) = type"
| "result_type (IfExprAST cond thn elze type) = type"
| "result_type (WhileExprAST cond thn elze type) = type"

subsection \<open>Constructors\<close>

text \<open>
  A constructor that can exit with a diagnostic returns a sum. The constructors of the
  call, index, string, property access, method call and struct literal nodes, which read
  the classes of types.cpp (the shared \<^verbatim>\<open>FunctionType\<close> of a callee,
  \<^verbatim>\<open>TupleType::get_elem_type\<close>, \<^verbatim>\<open>Type::stringify\<close>, \<^verbatim>\<open>StructType::get_index\<close>),
  are left out; the emitters below take those nodes with any fields.
\<close>

definition num_char_to_type :: "char \<Rightarrow> bool \<Rightarrow> error + NumType" where
  "num_char_to_type type_char has_dot =
     (if type_char = CHR ''d'' then Inr (NumType 64 True True)
      else if type_char = CHR ''f'' then Inr (NumType 32 True True)
      else if type_char = CHR ''i'' then
        (if has_dot then error ([CHR 0x27] @ ''i' (int32) type can't have a '.'' @ [CHR 0x27]) else Inr (NumType 32 False True))
      else if type_char = CHR ''u'' then
        (if has_dot then error ([CHR 0x27] @ ''u' (uint32) type can't have a '.'' @ [CHR 0x27]) else Inr (NumType 32 False False))
      else if type_char = CHR ''l'' then
        (if has_dot then error ([CHR 0x27] @ ''l' (long, int64) type can't have a '.'' @ [CHR 0x27]) else Inr (NumType 64 False True))
      else if type_char = CHR ''b'' then
        (if has_dot then error ([CHR 0x27] @ ''b' (byte, uint8) type can't have a '.'' @ [CHR 0x27]) else Inr (NumType 8 False False))
      else error (''Invalid number type id '' @ [CHR 0x27, type_char, CHR 0x27]))"

definition new_NumberExprAST :: "string \<Rightarrow> char \<Rightarrow> bool \<Rightarrow> nat \<Rightarrow> error + ExprAST" where
  "new_NumberExprAST val type_char has_dot base =
     (case num_char_to_type type_char has_dot of
        Inl err \<Rightarrow> Inl err
      | Inr type \<Rightarrow> Inr (NumberExprAST val base type))"

definition new_BoolExprAST :: "bool \<Rightarrow> ExprAST" where
  "new_BoolExprAST b = BoolExprAST b (Number (NumType 1 False False))"

definition new_CastExprAST :: "ExprAST \<Rightarrow> Type \<Rightarrow> ExprAST" where
  "new_CastExprAST v to = CastExprAST v (result_type v) to"

text \<open>
  \<^verbatim>\<open>curr_named_var_types\<close>, the table the constructors read and write; the first entry
  for a name is its binding.
\<close>

definition new_VariableExprAST :: "string \<Rightarrow> (string \<times> Type) list \<Rightarrow> error + ExprAST" where
  "new_VariableExprAST name curr_named_var_types =
     (case map_of curr_named_var_types name of
        None \<Rightarrow> error (''Variable '' @ [CHR 0x27] @ name @ [CHR 0x27] @ '' doesn't exist.'')
      | Some type \<Rightarrow> Inr (VariableExprAST name type))"

definition new_LetExprAST :: "string \<Rightarrow> Type option \<Rightarrow> ExprAST option \<Rightarrow> bool \<Rightarrow> bool
    \<Rightarrow> (string \<times> Type) list \<Rightarrow> error + (ExprAST \<times> (string \<times> Type) list)" where
  "new_LetExprAST ident type v constant global curr_named_var_types =
     (case type of
        Some t \<Rightarrow> Inr (LetExprAST ident t v constant global, (ident, t) # curr_named_var_types)
      | None \<Rightarrow>
          (case v of
             Some e \<Rightarrow>
               Inr (LetExprAST ident (result_type e) v constant global,
                    (ident, result_type e) # curr_named_var_types)
           | None \<Rightarrow> error ''Untyped valueless variable''))"

text \<open>
  Modelled from the spec: the table \<^verbatim>\<open>binop_precedence\<close> (the parser's) is not under
  src/. Section 4.4 lists the comparisons \<open><\<close>, \<open>>\<close>, \<open><=\<close>, \<open>>=\<close>, \<open>==\<close>, \<open>!=\<close>, which the
  constructor recognises by the precedence 10; every other operator has another
  precedence here.
\<close>

definition binop_precedence :: "Token \<Rightarrow> nat" where
  "binop_precedence op =
     (if op \<in> set [T_ASCII CHR ''<'', T_ASCII CHR ''>'', T_LEQ, T_GEQ, T_EQEQ, T_NEQ] then 10
      else if op = T_ASCII CHR ''='' then 1
      else if op \<in> set [T_LOR, T_LAND] then 5
      else if op \<in> set [T_ASCII CHR ''+'', T_ASCII CHR ''-''] then 20
      else if op \<in> set [T_ASCII CHR ''*'', T_ASCII CHR ''/'', T_ASCII CHR ''%''] then 40
      else 0)"

definition new_BinaryExprAST :: "Token \<Rightarrow> ExprAST \<Rightarrow> ExprAST \<Rightarrow> error + ExprAST" where
  "new_BinaryExprAST op LHS RHS =
     (let lhs_t = result_type LHS; rhs_t = result_type RHS in
      if op = T_ASCII CHR ''='' then Inr (BinaryExprAST op LHS RHS rhs_t)
      else
        (case lhs_t of
           Number lhs_n \<Rightarrow>
             (case rhs_t of
                Number rhs_n \<Rightarrow>
                  Inr (BinaryExprAST op LHS RHS
                         (if binop_precedence op = 10 then Number (NumType 1 False False) else lhs_t))
              | Pointer rhs_p \<Rightarrow> Inr (BinaryExprAST op LHS RHS rhs_t)
              | _ \<Rightarrow> error ''Unknown ptr_ptr op'')
         | Pointer lhs_p \<Rightarrow>
             (case rhs_t of
                Number rhs_n \<Rightarrow> Inr (BinaryExprAST op LHS RHS lhs_t)
              | _ \<Rightarrow> error ''Unknown ptr_ptr op'')
         | _ \<Rightarrow> error ''Unknown ptr_ptr op''))"

definition new_UnaryExprAST :: "char \<Rightarrow> ExprAST \<Rightarrow> error + ExprAST" where
  "new_UnaryExprAST op operand =
     (if op = CHR ''*'' then
        (case result_type operand of
           Pointer points_to \<Rightarrow> Inr (UnaryExprAST op operand points_to)
         | _ \<Rightarrow> error ''* can't be used on a non-pointer type'')
      else if op = CHR ''&'' then Inr (UnaryExprAST op operand (Pointer (result_type operand)))
      else Inr (UnaryExprAST op operand (result_type operand)))"

definition new_BlockExprAST :: "ExprAST list \<Rightarrow> error + ExprAST" where
  "new_BlockExprAST exprs =
     (if length exprs = 0 then error ''block can't be empty.''
      else Inr (BlockExprAST exprs (result_type (last exprs))))"

definition new_NullExprAST :: "Type \<Rightarrow> ExprAST" where
  "new_NullExprAST type = NullExprAST type"

definition new_IfExprAST :: "ExprAST \<Rightarrow> ExprAST \<Rightarrow> ExprAST option \<Rightarrow> error + ExprAST" where
  "new_IfExprAST cond thn elze =
     (let then_t = result_type thn;
          type = then_t;
          elze' = (case elze of None \<Rightarrow> new_NullExprAST type | Some e \<Rightarrow> e);
          else_t = result_type elze'
      in if neq then_t else_t
         then error ''while's then and else side don't have the same type, ''
         else Inr (IfExprAST cond thn elze' type))"

text \<open>\<^verbatim>\<open>using IfExprAST::IfExprAST;\<close> the constructor of a while is that of an if.\<close>

definition new_WhileExprAST :: "ExprAST \<Rightarrow> ExprAST \<Rightarrow> ExprAST option \<Rightarrow> error + ExprAST" where
  "new_WhileExprAST cond thn elze =
     (let then_t = result_type thn;
          type = then_t;
          elze' = (case elze of None \<Rightarrow> new_NullExprAST type | Some e \<Rightarrow> e);
          else_t = result_type elze'
      in if neq then_t else_t
         then error ''while's then and else side don't have the same type, ''
         else Inr (WhileExprAST cond thn elze' type))"


subsection \<open>Emission\<close>

definition float_float_binop :: "Token \<Rightarrow> LLVMValueRef \<Rightarrow> LLVMValueRef \<Rightarrow> Instr option" where
  "float_float_binop op L R =
     (if op = T_ASCII CHR ''+'' then Some (LLVMBuildFAdd L R)
      else if op = T_ASCII CHR ''-'' then Some (LLVMBuildFSub L R)
      else if op = T_ASCII CHR ''*'' then Some (LLVMBuildFMul L R)
      else if op = T_ASCII CHR ''/'' then Some (LLVMBuildFDiv L R)
      else if op = T_ASCII CHR ''%'' then Some (LLVMBuildFRem L R)
      else if op = T_LAND \<or> op = T_ASCII CHR ''&'' then Some (LLVMBuildAnd L R)
      else if op = T_LOR \<or> op = T_ASCII CHR ''|'' then Some (LLVMBuildOr L R)
      else if op = T_ASCII CHR ''<'' then Some (LLVMBuildFCmp LLVMRealULT L R)
      else if op = T_ASCII CHR ''>'' then Some (LLVMBuildFCmp LLVMRealUGT L R)
      else if op = T_LEQ then Some (LLVMBuildFCmp LLVMRealULE L R)
      else if op = T_GEQ then Some (LLVMBuildFCmp LLVMRealUGE L R)
      else if op = T_EQEQ then Some (LLVMBuildFCmp LLVMRealUEQ L R)
      else if op = T_NEQ then Some (LLVMBuildFCmp LLVMRealUNE L R)
      else None)"

definition int_int_binop :: "bool \<Rightarrow> Token \<Rightarrow> LLVMValueRef \<Rightarrow> LLVMValueRef \<Rightarrow> Instr option" where
  "int_int_binop sg op L R =
     (if op = T_ASCII CHR ''+'' then Some (LLVMBuildAdd L R)
      else if op = T_ASCII CHR ''-'' then Some (LLVMBuildSub L R)
      else if op = T_ASCII CHR ''*'' then Some (LLVMBuildMul L R)
      else if op = T_ASCII CHR ''/'' then Some (if sg then LLVMBuildSDiv L R else LLVMBuildUDiv L R)
      else if op = T_ASCII CHR ''%'' then Some (if sg then LLVMBuildSRem L R else LLVMBuildURem L R)
      else if op = T_LAND \<or> op = T_ASCII CHR ''&'' then Some (LLVMBuildAnd L R)
      else if op = T_LOR \<or> op = T_ASCII CHR ''|'' then Some (LLVMBuildOr L R)
      else if op = T_ASCII CHR ''<'' then Some (LLVMBuildICmp (if sg then LLVMIntSLT else LLVMIntULT) L R)
      else if op = T_ASCII CHR ''>'' then Some (LLVMBuildICmp (if sg then LLVMIntSGT else LLVMIntUGT) L R)
      else if op = T_LEQ then Some (LLVMBuildICmp (if sg then LLVMIntSLE else LLVMIntULE) L R)
      else if op = T_GEQ then Some (LLVMBuildICmp (if sg then LLVMIntSGE else LLVMIntUGE) L R)
      else if op = T_EQEQ then Some (LLVMBuildICmp LLVMIntEQ L R)
      else if op = T_NEQ then Some (LLVMBuildICmp LLVMIntNE L R)
      else None)"

text \<open>
  \<^verbatim>\<open>gen_num_num_binop\<close>: the operand with fewer bits is cast to the type of the other,
  then the operator is chosen by the two floating flags.
\<close>

definition gen_num_num_binop :: "Token \<Rightarrow> LLVMValueRef \<Rightarrow> LLVMValueRef \<Rightarrow> NumType \<Rightarrow> NumType
    \<Rightarrow> codegen \<Rightarrow> error + (LLVMValueRef \<times> codegen)" where
  "gen_num_num_binop op L0 R0 lhs_nt rhs_nt cg =
     (case (if bits rhs_nt < bits lhs_nt then
              (case gen_num_cast R0 rhs_nt (Number lhs_nt) cg of
                 Inl err \<Rightarrow> Inl err
               | Inr (R, cg1) \<Rightarrow> Inr (L0, R, cg1))
            else if bits lhs_nt < bits rhs_nt then
              (case gen_num_cast L0 lhs_nt (Number rhs_nt) cg of
                 Inl err \<Rightarrow> Inl err
               | Inr (L, cg1) \<Rightarrow> Inr (L, R0, cg1))
            else Inr (L0, R0, cg)) of
        Inl err \<Rightarrow> Inl err
      | Inr (L, R, cg1) \<Rightarrow>
          if is_floating lhs_nt \<and> is_floating rhs_nt then
            (case float_float_binop op L R of
               Some i \<Rightarrow> Inr (build i cg1)
             | None \<Rightarrow> error ''invalid float_float binary operator'')
          else if \<not> is_floating lhs_nt \<and> \<not> is_floating rhs_nt then
            (case int_int_binop (is_signed lhs_nt \<and> is_signed rhs_nt) op L R of
               Some i \<Rightarrow> Inr (build i cg1)
             | None \<Rightarrow> error ''invalid int_int binary operator'')
          else error ''invalid float_int binary operator'')"

definition gen_ptr_num_binop :: "Token \<Rightarrow> LLVMValueRef \<Rightarrow> LLVMValueRef \<Rightarrow> Type \<Rightarrow> NumType
    \<Rightarrow> codegen \<Rightarrow> error + (LLVMValueRef \<times> codegen)" where
  "gen_ptr_num_binop op ptr num points_to num_t cg =
     (if op = T_ASCII CHR ''-'' then
        (case build (LLVMBuildSub (LLVMConstInt (llvm_type (Number (NumType 32 False False))) 0 False) num) cg of
           (num', cg1) \<Rightarrow> Inr (build (LLVMBuildGEP2 (llvm_type points_to) ptr [num']) cg1))
      else if op = T_ASCII CHR ''+'' then
        Inr (build (LLVMBuildGEP2 (llvm_type points_to) ptr [num]) cg)
      else error ''invalid ptr_num binary operator'')"

text \<open>
  \<^verbatim>\<open>BinaryExprAST::gen_value\<close> after \<open>L\<close> and \<open>R\<close> have been generated: the choice by
  the classes of the two operand types.
\<close>

definition binary_emit :: "Token \<Rightarrow> Type \<Rightarrow> Type \<Rightarrow> Type \<Rightarrow> LLVMValueRef \<Rightarrow> LLVMValueRef
    \<Rightarrow> codegen \<Rightarrow> error + (Value \<times> codegen)" where
  "binary_emit op type lhs_t rhs_t L R cg =
     (case lhs_t of
        Number lhs_nt \<Rightarrow>
          (case rhs_t of
             Number rhs_nt \<Rightarrow>
               (case gen_num_num_binop op L R lhs_nt rhs_nt cg of
                  Inl err \<Rightarrow> Inl err
                | Inr (x, cg1) \<Rightarrow> Inr (ConstValue type x, cg1))
           | Pointer rhs_points_to \<Rightarrow>
               (case gen_ptr_num_binop op R L rhs_points_to lhs_nt cg of
                  Inl err \<Rightarrow> Inl err
                | Inr (x, cg1) \<Rightarrow> Inr (ConstValue type x, cg1))
           | _ \<Rightarrow> error ''Unknown ptr_ptr op'')
      | Pointer lhs_points_to \<Rightarrow>
          (case rhs_t of
             Number rhs_nt \<Rightarrow>
               (case gen_ptr_num_binop op L R lhs_points_to rhs_nt cg of
                  Inl err \<Rightarrow> Inl err
                | Inr (x, cg1) \<Rightarrow> Inr (ConstValue type x, cg1))
           | _ \<Rightarrow> error ''Unknown ptr_ptr op'')
      | _ \<Rightarrow> error ''Unknown ptr_ptr op'')"

text \<open>
  The \<^verbatim>\<open>switch\<close> of \<^verbatim>\<open>UnaryExprAST::gen_value\<close> on \<^verbatim>\<open>Value *val\<close>, the value of
  the operand, which may be null. The local \<^verbatim>\<open>zero\<close> (a 32-bit integer constant) is
  computed and never used.
\<close>

definition unary_emit :: "char \<Rightarrow> Type \<Rightarrow> Value option \<Rightarrow> codegen \<Rightarrow> error + (Value option \<times> codegen)" where
  "unary_emit op type val cg =
     (if op = CHR ''!'' then
        (case val of
           None \<Rightarrow> Inl Crash
         | Some v \<Rightarrow>
             (case gen_val v cg of
                Inl err \<Rightarrow> Inl err
              | Inr (x, cg1) \<Rightarrow>
                  (case build (LLVMBuildFCmp LLVMRealONE x (LLVMConstReal float_64_type 1)) cg1 of
                     (r, cg2) \<Rightarrow> Inr (Some (ConstValue type r), cg2))))
      else if op = CHR ''-'' then
        (case val of
           None \<Rightarrow> Inl Crash
         | Some v \<Rightarrow>
             (case gen_val v cg of
                Inl err \<Rightarrow> Inl err
              | Inr (x, cg1) \<Rightarrow>
                  (case build (LLVMBuildFSub (LLVMConstReal float_64_type 0) x) cg1 of
                     (r, cg2) \<Rightarrow> Inr (Some (ConstValue type r), cg2))))
      else if op = CHR ''*'' then
        (case val of
           None \<Rightarrow> Inl Crash
         | Some v \<Rightarrow>
             (case gen_val v cg of
                Inl err \<Rightarrow> Inl err
              | Inr (x, cg1) \<Rightarrow> Inr (Some (BasicLoadValue type x), cg1)))
      else if op = CHR ''&'' then
        (case val of
           None \<Rightarrow> Inl Crash
         | Some v \<Rightarrow>
             (case gen_ptr v of
                Inl err \<Rightarrow> Inl err
              | Inr p \<Rightarrow> Inr (Some (ConstValue type p), cg)))
      else error (''invalid prefix unary operator '' @ [CHR 0x27, op, CHR 0x27]))"

text \<open>
  The test of a condition's type in \<^verbatim>\<open>IfExprAST::gen_value\<close> and
  \<^verbatim>\<open>WhileExprAST::gen_value\<close>:
  \<^verbatim>\<open>if (NumType *n = dynamic_cast<NumType *>(cond->get_type())) if (n->is_floating)\<close>
\<close>

definition is_floating_cond :: "Type \<Rightarrow> bool" where
  "is_floating_cond t = (case t of Number n \<Rightarrow> is_floating n | _ \<Rightarrow> False)"

text \<open>
  Modelled from the spec: the class \<^verbatim>\<open>PHIValue\<close> of this revision is not under src/.
  Section 4.4: a phi at the merge block that selects between the two arms' values, from
  the blocks that end the arms. \<^verbatim>\<open>gen_phi\<close> of the later revision, with the same four
  arguments, is taken for it; it asks both values for their types first.
\<close>

definition PHIValue :: "LLVMBasicBlockRef \<Rightarrow> Value option \<Rightarrow> LLVMBasicBlockRef \<Rightarrow> Value option
    \<Rightarrow> codegen \<Rightarrow> error + (Value option \<times> codegen)" where
  "PHIValue then_bb then_v else_bb else_v cg =
     (case then_v of
        None \<Rightarrow> Inl Crash
      | Some a_v \<Rightarrow>
          (case else_v of
             None \<Rightarrow> Inl Crash
           | Some b_v \<Rightarrow>
               (case gen_phi then_bb a_v else_bb b_v cg of
                  Inl err \<Rightarrow> Inl err
                | Inr (v, cg1) \<Rightarrow> Inr (Some v, cg1))))"

text \<open>
  \<^verbatim>\<open>curr_named_variables[name]\<close> as a read: \<^verbatim>\<open>std::map::operator[]\<close> yields the
  pointer bound to the name; for a name with no entry it first enters the name with a
  null pointer and yields that.
\<close>

definition lookup_variable :: "string \<Rightarrow> codegen \<Rightarrow> Value option \<times> codegen" where
  "lookup_variable name cg =
     (case map_of (curr_named_variables cg) name of
        None \<Rightarrow> (None, cg\<lparr>curr_named_variables := (name, None) # curr_named_variables cg\<rparr>)
      | Some p \<Rightarrow> (p, cg))"

text \<open>\<^verbatim>\<open>curr_named_variables[name] = v\<close>\<close>

definition bind_variable :: "string \<Rightarrow> Value option \<Rightarrow> codegen \<Rightarrow> codegen" where
  "bind_variable name v cg = cg\<lparr>curr_named_variables := (name, v) # curr_named_variables cg\<rparr>"

text \<open>
  \<^verbatim>\<open>gen_value\<close> of every expression class; it returns a \<^verbatim>\<open>Value *\<close>, which is null
  (\<open>None\<close>) when it comes from a name that has no value. Every
  \<^verbatim>\<open>e->gen_value()->m(...)\<close> calls \<open>m\<close> through that pointer: through a null pointer
  the outcome is \<open>Crash\<close>. With it come the loops over the arguments of a call
  (\<open>gen_call_args\<close>: an argument within the declared parameters is cast to the
  parameter's type), over the fields of a struct literal (\<open>gen_new_stores\<close>) and over the
  expressions of a block (\<open>gen_block\<close>). \<^verbatim>\<open>gen_assign\<close> is the first branch of the
  binary operator. The test \<^verbatim>\<open>if (!func)\<close> of a call is on a reference that is never
  null here, and the return type of the callee's \<^verbatim>\<open>FunctionType\<close> is read when the
  call is emitted. The constructors refuse an empty block and give a struct literal as
  many indexes as values; without that the loops read past their arrays (\<open>Crash\<close>).
\<close>

fun gen_value :: "ExprAST \<Rightarrow> codegen \<Rightarrow> error + (Value option \<times> codegen)"
  and gen_call_args :: "ExprAST list \<Rightarrow> Type list \<Rightarrow> codegen \<Rightarrow> error + (LLVMValueRef list \<times> codegen)"
  and gen_new_stores :: "Type \<Rightarrow> LLVMValueRef \<Rightarrow> nat list \<Rightarrow> ExprAST list \<Rightarrow> codegen \<Rightarrow> error + codegen"
  and gen_block :: "ExprAST list \<Rightarrow> codegen \<Rightarrow> error + (Value option \<times> codegen)"
where
  "gen_value (NumberExprAST val base type) cg =
     (if is_floating type then
        (if base \<noteq> 10
         then error ''floating-point numbers with a base that isn't decimal aren't supported.''
         else Inr (Some (ConstValue (Number type)
                           (LLVMConstRealOfStringAndSize (llvm_type (Number type)) val)), cg))
      else Inr (Some (ConstValue (Number type)
                        (LLVMConstIntOfStringAndSize (llvm_type (Number type)) val base)), cg))"
| "gen_value (BoolExprAST b type) cg =
     Inr (Some (ConstValue type
                  (if b then LLVMConstAllOnes (llvm_type type) else LLVMConstNull (llvm_type type))), cg)"
| "gen_value (CastExprAST v from to) cg =
     (case gen_value v cg of
        Inl err \<Rightarrow> Inl err
      | Inr (None, cg1) \<Rightarrow> Inl Crash
      | Inr (Some x, cg1) \<Rightarrow> Inr (Some (cast_to x to), cg1))"
| "gen_value (VariableExprAST name type) cg = Inr (lookup_variable name cg)"
| "gen_value (LetExprAST ident type v constant global) cg =
     (if constant then
        (case v of
           Some e \<Rightarrow>
             (case gen_value e cg of
                Inl err \<Rightarrow> Inl err
              | Inr (x, cg1) \<Rightarrow> Inr (x, bind_variable ident x cg1))
         | None \<Rightarrow> error ''Constant variables need an initialization value'')
      else
        (case build (LLVMBuildAlloca (llvm_type type)) cg of
           (ptr, cg1) \<Rightarrow>
             (case v of
                Some e \<Rightarrow>
                  (case gen_value e (bind_variable ident (Some (BasicLoadValue type ptr)) cg1) of
                     Inl err \<Rightarrow> Inl err
                   | Inr (None, cg2) \<Rightarrow> Inl Crash
                   | Inr (Some x, cg2) \<Rightarrow>
                       (case gen_val (cast_to x type) cg2 of
                          Inl err \<Rightarrow> Inl err
                        | Inr (llvm_val, cg3) \<Rightarrow>
                            (case build (LLVMBuildStore llvm_val ptr) cg3 of
                               (st, cg4) \<Rightarrow> Inr (Some (BasicLoadValue type ptr), cg4))))
              | None \<Rightarrow>
                  Inr (Some (BasicLoadValue type ptr),
                       bind_variable ident (Some (BasicLoadValue type ptr)) cg1))))"
| "gen_value (CharExprAST charr) cg =
     Inr (Some (ConstValue (Number (NumType 8 False False))
                  (LLVMConstInt int_8_type (char_int (Some charr) mod 2 ^ 64) False)), cg)"
| "gen_value (StringExprAST chars c_type t_type p_type) cg =
     (case LLVMAddGlobal (llvm_type t_type) cg of
        (glob, cg1) \<Rightarrow>
          Inr (Some (ConstValue p_type
                       (LLVMConstGEP2 (llvm_type t_type) glob
                          [LLVMConstInt (llvm_type (Number (NumType 64 False False))) 0 False,
                           LLVMConstInt (llvm_type (Number (NumType 64 False False))) 0 False])),
               LLVMSetInitializer glob (LLVMConstString chars True) cg1))"
| "gen_value (BinaryExprAST op LHS RHS type) cg =
     (if op = T_ASCII CHR ''='' then
        (case gen_value LHS cg of
           Inl err \<Rightarrow> Inl err
         | Inr (None, cg1) \<Rightarrow> Inl Crash
         | Inr (Some l, cg1) \<Rightarrow>
             (case gen_ptr l of
                Inl err \<Rightarrow> Inl err
              | Inr store_ptr \<Rightarrow>
                  (case gen_value RHS cg1 of
                     Inl err \<Rightarrow> Inl err
                   | Inr (None, cg2) \<Rightarrow> Inl Crash
                   | Inr (Some r, cg2) \<Rightarrow>
                       (case gen_val (cast_to r (result_type LHS)) cg2 of
                          Inl err \<Rightarrow> Inl err
                        | Inr (x, cg3) \<Rightarrow>
                            (case build (LLVMBuildStore x store_ptr) cg3 of
                               (st, cg4) \<Rightarrow> Inr (Some (BasicLoadValue type store_ptr), cg4))))))
      else
        (case gen_value LHS cg of
           Inl err \<Rightarrow> Inl err
         | Inr (None, cg1) \<Rightarrow> Inl Crash
         | Inr (Some l, cg1) \<Rightarrow>
             (case gen_val l cg1 of
                Inl err \<Rightarrow> Inl err
              | Inr (L, cg2) \<Rightarrow>
                  (case gen_value RHS cg2 of
                     Inl err \<Rightarrow> Inl err
                   | Inr (None, cg3) \<Rightarrow> Inl Crash
                   | Inr (Some r, cg3) \<Rightarrow>
                       (case gen_val r cg3 of
                          Inl err \<Rightarrow> Inl err
                        | Inr (R, cg4) \<Rightarrow>
                            (case binary_emit op type (result_type LHS) (result_type RHS) L R cg4 of
                               Inl err \<Rightarrow> Inl err
                             | Inr (x, cg5) \<Rightarrow> Inr (Some x, cg5)))))))"
| "gen_value (UnaryExprAST op operand type) cg =
     (case gen_value operand cg of
        Inl err \<Rightarrow> Inl err
      | Inr (val, cg1) \<Rightarrow> unary_emit op type val cg1)"
| "gen_value (CallExprAST return_type arguments vararg called args type) cg =
     (case gen_value called cg of
        Inl err \<Rightarrow> Inl err
      | Inr (None, cg1) \<Rightarrow> Inl Crash
      | Inr (Some c, cg1) \<Rightarrow>
          (case gen_val c cg1 of
             Inl err \<Rightarrow> Inl err
           | Inr (func, cg2) \<Rightarrow>
               (case gen_call_args args arguments cg2 of
                  Inl err \<Rightarrow> Inl err
                | Inr (arg_vs, cg3) \<Rightarrow>
                    (case build (LLVMBuildCall2 (llvm_type (Function return_type arguments vararg))
                                   func arg_vs) cg3 of
                       (x, cg4) \<Rightarrow> Inr (Some (ConstValue return_type x), cg4)))))"
| "gen_value (IndexExprAST v index type) cg =
     (case gen_value index cg of
        Inl err \<Rightarrow> Inl err
      | Inr (None, cg1) \<Rightarrow> Inl Crash
      | Inr (Some i, cg1) \<Rightarrow>
          (case gen_val i cg1 of
             Inl err \<Rightarrow> Inl err
           | Inr (index_v, cg2) \<Rightarrow>
               (case gen_value v cg2 of
                  Inl err \<Rightarrow> Inl err
                | Inr (None, cg3) \<Rightarrow> Inl Crash
                | Inr (Some b, cg3) \<Rightarrow>
                    (case gen_val b cg3 of
                       Inl err \<Rightarrow> Inl err
                     | Inr (p, cg4) \<Rightarrow>
                         (case build (LLVMBuildGEP2 (llvm_type type) p [index_v]) cg4 of
                            (x, cg5) \<Rightarrow> Inr (Some (BasicLoadValue type x), cg5))))))"
| "gen_value (PropAccessExprAST src source_type index key type) cg =
     (case gen_value src cg of
        Inl err \<Rightarrow> Inl err
      | Inr (None, cg1) \<Rightarrow> Inl Crash
      | Inr (Some s, cg1) \<Rightarrow>
          (case gen_val s cg1 of
             Inl err \<Rightarrow> Inl err
           | Inr (p, cg2) \<Rightarrow>
               (case build (LLVMBuildStructGEP2 (llvm_type source_type) p index) cg2 of
                  (x, cg3) \<Rightarrow> Inr (Some (BasicLoadValue type x), cg3))))"
| "gen_value (MethodCallExprAST underlying_call) cg = gen_value underlying_call cg"
| "gen_value (NewExprAST s_type p_type indexes vals) cg =
     (case build (LLVMBuildAlloca (llvm_type s_type)) cg of
        (ptr, cg1) \<Rightarrow>
          (case gen_new_stores s_type ptr indexes vals cg1 of
             Inl err \<Rightarrow> Inl err
           | Inr cg2 \<Rightarrow> Inr (Some (ConstValue p_type ptr), cg2)))"
| "gen_value (BlockExprAST exprs type) cg = gen_block exprs cg"
| "gen_value (NullExprAST type) cg = Inr (Some (ConstValue type (LLVMConstNull (llvm_type type))), cg)"
| "gen_value (IfExprAST cond thn elze type) cg =
     (case gen_value cond cg of
        Inl err \<Rightarrow> Inl err
      | Inr (None, cg1) \<Rightarrow> Inl Crash
      | Inr (Some c, cg1) \<Rightarrow>
     (case gen_val c cg1 of
        Inl err \<Rightarrow> Inl err
      | Inr (cond_v0, cg2) \<Rightarrow>
     (case (if is_floating_cond (result_type cond)
            then build (LLVMBuildFCmp LLVMRealONE cond_v0 (LLVMConstReal float_64_type 0)) cg2
            else (cond_v0, cg2)) of
        (cond_v, cg3) \<Rightarrow>
     (case LLVMAppendBasicBlockInContext cg3 of
        (then_bb, cg4) \<Rightarrow>
     (case LLVMCreateBasicBlockInContext cg4 of
        (else_bb, cg5) \<Rightarrow>
     (case LLVMCreateBasicBlockInContext cg5 of
        (merge_bb, cg6) \<Rightarrow>
     (case build (LLVMBuildCondBr cond_v then_bb else_bb) cg6 of
        (br0, cg7) \<Rightarrow>
     (case gen_value thn (LLVMPositionBuilderAtEnd then_bb cg7) of
        Inl err \<Rightarrow> Inl err
      | Inr (then_v, cg8) \<Rightarrow>
     (case build (LLVMBuildBr merge_bb) cg8 of
        (br1, cg9) \<Rightarrow>
     (case gen_value elze
             (LLVMPositionBuilderAtEnd else_bb (LLVMAppendExistingBasicBlock else_bb cg9)) of
        Inl err \<Rightarrow> Inl err
      | Inr (else_v, cg10) \<Rightarrow>
     (case build (LLVMBuildBr merge_bb) cg10 of
        (br2, cg11) \<Rightarrow>
          PHIValue (LLVMGetInsertBlock cg9) then_v (LLVMGetInsertBlock cg11) else_v
            (LLVMPositionBuilderAtEnd merge_bb
               (LLVMAppendExistingBasicBlock merge_bb cg11)))))))))))))"
| "gen_value (WhileExprAST cond thn elze type) cg =
     (case gen_value cond cg of
        Inl err \<Rightarrow> Inl err
      | Inr (None, cg1) \<Rightarrow> Inl Crash
      | Inr (Some c, cg1) \<Rightarrow>
     (case gen_val c cg1 of
        Inl err \<Rightarrow> Inl err
      | Inr (cond_v0, cg2) \<Rightarrow>
     (case (if is_floating_cond (result_type cond)
            then build (LLVMBuildFCmp LLVMRealONE cond_v0 (LLVMConstReal float_64_type 0)) cg2
            else (cond_v0, cg2)) of
        (cond_v, cg3) \<Rightarrow>
     (case LLVMAppendBasicBlockInContext cg3 of
        (then_bb, cg4) \<Rightarrow>
     (case LLVMCreateBasicBlockInContext cg4 of
        (else_bb, cg5) \<Rightarrow>
     (case LLVMCreateBasicBlockInContext cg5 of
        (merge_bb, cg6) \<Rightarrow>
     (case build (LLVMBuildCondBr cond_v then_bb else_bb) cg6 of
        (br0, cg7) \<Rightarrow>
     (case gen_value thn (LLVMPositionBuilderAtEnd then_bb cg7) of
        Inl err \<Rightarrow> Inl err
      | Inr (then_v, cg8) \<Rightarrow>
     (case gen_value cond cg8 of
        Inl err \<Rightarrow> Inl err
      | Inr (None, cg9) \<Rightarrow> Inl Crash
      | Inr (Some c2, cg9) \<Rightarrow>
     (case gen_val c2 cg9 of
        Inl err \<Rightarrow> Inl err
      | Inr (cond_v20, cg10) \<Rightarrow>
     (case (if is_floating_cond (result_type cond)
            then build (LLVMBuildFCmp LLVMRealONE cond_v (LLVMConstReal float_64_type 0)) cg10
            else (cond_v20, cg10)) of
        (cond_v2, cg11) \<Rightarrow>
     (case build (LLVMBuildCondBr cond_v2 then_bb merge_bb) cg11 of
        (br1, cg12) \<Rightarrow>
     (case gen_value elze
             (LLVMPositionBuilderAtEnd else_bb (LLVMAppendExistingBasicBlock else_bb cg12)) of
        Inl err \<Rightarrow> Inl err
      | Inr (else_v, cg13) \<Rightarrow>
     (case build (LLVMBuildBr merge_bb) cg13 of
        (br2, cg14) \<Rightarrow>
          PHIValue (LLVMGetInsertBlock cg12) then_v (LLVMGetInsertBlock cg14) else_v
            (LLVMPositionBuilderAtEnd merge_bb
               (LLVMAppendExistingBasicBlock merge_bb cg14))))))))))))))))"
| "gen_call_args [] arguments cg = Inr ([], cg)"
| "gen_call_args (a # as) [] cg =
     (case gen_value a cg of
        Inl err \<Rightarrow> Inl err
      | Inr (None, cg1) \<Rightarrow> Inl Crash
      | Inr (Some v, cg1) \<Rightarrow>
          (case gen_val v cg1 of
             Inl err \<Rightarrow> Inl err
           | Inr (x, cg2) \<Rightarrow>
               (case gen_call_args as [] cg2 of
                  Inl err \<Rightarrow> Inl err
                | Inr (xs, cg3) \<Rightarrow> Inr (x # xs, cg3))))"
| "gen_call_args (a # as) (t # ts) cg =
     (case gen_value a cg of
        Inl err \<Rightarrow> Inl err
      | Inr (None, cg1) \<Rightarrow> Inl Crash
      | Inr (Some v, cg1) \<Rightarrow>
          (case gen_val (cast_to v t) cg1 of
             Inl err \<Rightarrow> Inl err
           | Inr (x, cg2) \<Rightarrow>
               (case gen_call_args as ts cg2 of
                  Inl err \<Rightarrow> Inl err
                | Inr (xs, cg3) \<Rightarrow> Inr (x # xs, cg3))))"
| "gen_new_stores s_type ptr indexes [] cg = Inr cg"
| "gen_new_stores s_type ptr [] (v # vs) cg = Inl Crash"
| "gen_new_stores s_type ptr (i # is) (v # vs) cg =
     (case build (LLVMBuildStructGEP2 (llvm_type s_type) ptr i) cg of
        (set_ptr, cg1) \<Rightarrow>
          (case gen_value v cg1 of
             Inl err \<Rightarrow> Inl err
           | Inr (None, cg2) \<Rightarrow> Inl Crash
           | Inr (Some x, cg2) \<Rightarrow>
               (case gen_val x cg2 of
                  Inl err \<Rightarrow> Inl err
                | Inr (y, cg3) \<Rightarrow>
                    (case build (LLVMBuildStore y set_ptr) cg3 of
                       (st, cg4) \<Rightarrow> gen_new_stores s_type ptr is vs cg4))))"
| "gen_block [] cg = Inl Crash"
| "gen_block [e] cg = gen_value e cg"
| "gen_block (e # e' # es) cg =
     (case gen_value e cg of
        Inl err \<Rightarrow> Inl err
      | Inr (x, cg1) \<Rightarrow> gen_block (e' # es) cg1)"

subsection \<open>Properties of the nodes\<close>

abbreviation I1 :: Type where "I1 \<equiv> Number (NumType 1 False False)"
abbreviation I32 :: Type where "I32 \<equiv> Number (NumType 32 False True)"
abbreviation I64 :: Type where "I64 \<equiv> Number (NumType 64 False True)"
abbreviation F64 :: Type where "F64 \<equiv> Number (NumType 64 True True)"

text \<open>
  C1 (code): \<^verbatim>\<open>a + b\<close> with \<open>a\<close> of type i32 and \<open>b\<close> of type i64. Construction
  succeeds and the emitter widens \<open>a\<close> to 64 bits before the add (instruction 3 casts the
  loaded \<open>a\<close>, instruction 4 adds), but the node's result type is the type of the left
  operand, \<open>Number(32, false, true)\<close>, not \<open>Number(64, false, true)\<close>, and the value the
  emitter returns for the 64-bit sum carries that 32-bit type.
\<close>

theorem binary_add_i32_i64:
  "new_BinaryExprAST (T_ASCII CHR ''+'') (VariableExprAST ''a'' I32) (VariableExprAST ''b'' I64) =
     Inr (BinaryExprAST (T_ASCII CHR ''+'') (VariableExprAST ''a'' I32) (VariableExprAST ''b'' I64) I32) \<and>
   result_type (BinaryExprAST (T_ASCII CHR ''+'') (VariableExprAST ''a'' I32) (VariableExprAST ''b'' I64) I32)
     \<noteq> I64 \<and>
   gen_value (BinaryExprAST (T_ASCII CHR ''+'') (VariableExprAST ''a'' I32) (VariableExprAST ''b'' I64) I32)
       (codegen_init\<lparr>curr_named_variables :=
          [(''a'', Some (BasicLoadValue I32 (Global 0))), (''b'', Some (BasicLoadValue I64 (Global 1)))]\<rparr>) =
     Inr (Some (ConstValue I32 (Inst 4)),
          codegen_init\<lparr>next_ref := 5,
            insts := [(0, 1, LLVMBuildLoad2 (llvm_type I32) (Global 0)),
                      (0, 2, LLVMBuildLoad2 (llvm_type I64) (Global 1)),
                      (0, 3, LLVMBuildIntCast2 (Inst 1) (llvm_type I64) True),
                      (0, 4, LLVMBuildAdd (Inst 3) (Inst 2))],
            curr_named_variables :=
              [(''a'', Some (BasicLoadValue I32 (Global 0))), (''b'', Some (BasicLoadValue I64 (Global 1)))]\<rparr>)"
  by code_simp

theorem binary_add_i32_i64_witness:
  "\<exists>type. new_BinaryExprAST (T_ASCII CHR ''+'') (VariableExprAST ''a'' I32) (VariableExprAST ''b'' I64) =
     Inr (BinaryExprAST (T_ASCII CHR ''+'') (VariableExprAST ''a'' I32) (VariableExprAST ''b'' I64) type) \<and>
     type \<noteq> I64"
  using binary_add_i32_i64 by simp

text \<open>
  C2 (code): a while whose condition is the 64-bit float variable \<open>c\<close>. Before the loop
  the condition is loaded (instruction 1) and compared with 0.0 (instruction 2). In the
  body block 3 the condition is loaded again (instruction 7), but the comparison that the
  back-edge branch uses (instruction 8) takes instruction 2, the value computed before
  the loop, not instruction 7; the branch goes to the body block 3 when true and to the
  merge block 5 when false. With a condition that is not a float (the 1-bit variable
  \<open>k\<close>) the branch at the tail of the body does use the value loaded again
  (instruction 6).
\<close>

theorem while_float_condition:
  "gen_value (WhileExprAST (VariableExprAST ''c'' F64) (BoolExprAST True I1) (NullExprAST I1) I1)
       (codegen_init\<lparr>curr_named_variables := [(''c'', Some (BasicLoadValue F64 (Global 0)))]\<rparr>) =
     Inr (Some (ConstValue I1 (Inst 11)),
          codegen_init\<lparr>next_ref := 12,
            insts := [(0, 1, LLVMBuildLoad2 (llvm_type F64) (Global 0)),
                      (0, 2, LLVMBuildFCmp LLVMRealONE (Inst 1) (LLVMConstReal float_64_type 0)),
                      (0, 6, LLVMBuildCondBr (Inst 2) 3 4),
                      (3, 7, LLVMBuildLoad2 (llvm_type F64) (Global 0)),
                      (3, 8, LLVMBuildFCmp LLVMRealONE (Inst 2) (LLVMConstReal float_64_type 0)),
                      (3, 9, LLVMBuildCondBr (Inst 8) 3 5),
                      (4, 10, LLVMBuildBr 5),
                      (5, 11, LLVMBuildPhi (llvm_type I1)
                                [(LLVMConstAllOnes (llvm_type I1), 3), (LLVMConstNull (llvm_type I1), 4)])],
            pos := AtEnd 5, func_blocks := [0, 3, 4, 5],
            curr_named_variables := [(''c'', Some (BasicLoadValue F64 (Global 0)))]\<rparr>) \<and>
   gen_value (WhileExprAST (VariableExprAST ''k'' I1) (BoolExprAST True I1) (NullExprAST I1) I1)
       (codegen_init\<lparr>curr_named_variables := [(''k'', Some (BasicLoadValue I1 (Global 0)))]\<rparr>) =
     Inr (Some (ConstValue I1 (Inst 9)),
          codegen_init\<lparr>next_ref := 10,
            insts := [(0, 1, LLVMBuildLoad2 (llvm_type I1) (Global 0)),
                      (0, 5, LLVMBuildCondBr (Inst 1) 2 3),
                      (2, 6, LLVMBuildLoad2 (llvm_type I1) (Global 0)),
                      (2, 7, LLVMBuildCondBr (Inst 6) 2 4),
                      (3, 8, LLVMBuildBr 4),
                      (4, 9, LLVMBuildPhi (llvm_type I1)
                               [(LLVMConstAllOnes (llvm_type I1), 2), (LLVMConstNull (llvm_type I1), 3)])],
            pos := AtEnd 4, func_blocks := [0, 2, 3, 4],
            curr_named_variables := [(''k'', Some (BasicLoadValue I1 (Global 0)))]\<rparr>)"
  by code_simp

theorem while_float_condition_witness:
  "\<exists>v cg'. gen_value (WhileExprAST (VariableExprAST ''c'' F64) (BoolExprAST True I1) (NullExprAST I1) I1)
       (codegen_init\<lparr>curr_named_variables := [(''c'', Some (BasicLoadValue F64 (Global 0)))]\<rparr>) =
         Inr (v, cg') \<and>
     filter (\<lambda>e. fst e = 3) (insts cg') =
       [(3, 7, LLVMBuildLoad2 (llvm_type F64) (Global 0)),
        (3, 8, LLVMBuildFCmp LLVMRealONE (Inst 2) (LLVMConstReal float_64_type 0)),
        (3, 9, LLVMBuildCondBr (Inst 8) 3 5)]"
  using while_float_condition by simp

text \<open>
  C3 (as stated): for the 32-bit integer operand \<open>5\<close>, unary minus builds a subtraction
  from the zero of the 64-bit float type, which is not the operand's type, and unary
  \<open>!\<close> builds a not-equal comparison with the constant one of the 64-bit float type, not
  a comparison with zero.
\<close>

theorem unary_on_i32_counterexample:
  "gen_value (UnaryExprAST CHR ''-'' (NumberExprAST ''5'' 10 (NumType 32 False True)) I32) codegen_init =
     Inr (Some (ConstValue I32 (Inst 1)),
          codegen_init\<lparr>next_ref := 2,
            insts := [(0, 1, LLVMBuildFSub (LLVMConstReal (llvm_type F64) 0)
                               (LLVMConstIntOfStringAndSize (llvm_type I32) ''5'' 10))]\<rparr>) \<and>
   gen_value (UnaryExprAST CHR ''!'' (NumberExprAST ''5'' 10 (NumType 32 False True)) I32) codegen_init =
     Inr (Some (ConstValue I32 (Inst 1)),
          codegen_init\<lparr>next_ref := 2,
            insts := [(0, 1, LLVMBuildFCmp LLVMRealONE
                               (LLVMConstIntOfStringAndSize (llvm_type I32) ''5'' 10)
                               (LLVMConstReal (llvm_type F64) 1))]\<rparr>) \<and>
   llvm_type F64 \<noteq> llvm_type I32"
  by code_simp

text \<open>
  C3 (amended): when the operand's value is emitted and loaded as \<open>n\<close>, unary minus
  builds one subtraction of \<open>n\<close> from a zero constant (\<open>0 - n\<close>) and unary \<open>!\<close> builds one
  ordered not-equal comparison of \<open>n\<close> with the constant one (\<open>n != 1\<close>); the value
  returned holds the result of that instruction and carries the node's type, which the
  constructor sets to the operand's type.
\<close>

theorem unary_minus_not:
  assumes "gen_value operand cg = Inr (Some val, cg1)" and "gen_val val cg1 = Inr (n, cg2)"
  shows "(\<exists>zero_ty. gen_value (UnaryExprAST CHR ''-'' operand type) cg =
            Inr (Some (ConstValue type (fst (build (LLVMBuildFSub (LLVMConstReal zero_ty 0) n) cg2))),
                 snd (build (LLVMBuildFSub (LLVMConstReal zero_ty 0) n) cg2))) \<and>
         (\<exists>one_ty. gen_value (UnaryExprAST CHR ''!'' operand type) cg =
            Inr (Some (ConstValue type (fst (build (LLVMBuildFCmp LLVMRealONE n (LLVMConstReal one_ty 1)) cg2))),
                 snd (build (LLVMBuildFCmp LLVMRealONE n (LLVMConstReal one_ty 1)) cg2))) \<and>
         new_UnaryExprAST CHR ''-'' operand = Inr (UnaryExprAST CHR ''-'' operand (result_type operand)) \<and>
         new_UnaryExprAST CHR ''!'' operand = Inr (UnaryExprAST CHR ''!'' operand (result_type operand))"
proof -
  have minus: "gen_value (UnaryExprAST CHR ''-'' operand type) cg =
            Inr (Some (ConstValue type (fst (build (LLVMBuildFSub (LLVMConstReal float_64_type 0) n) cg2))),
                 snd (build (LLVMBuildFSub (LLVMConstReal float_64_type 0) n) cg2))"
    using assms by (simp add: unary_emit_def split: prod.splits)
  have not: "gen_value (UnaryExprAST CHR ''!'' operand type) cg =
            Inr (Some (ConstValue type (fst (build (LLVMBuildFCmp LLVMRealONE n (LLVMConstReal float_64_type 1)) cg2))),
                 snd (build (LLVMBuildFCmp LLVMRealONE n (LLVMConstReal float_64_type 1)) cg2))"
    using assms by (simp add: unary_emit_def split: prod.splits)
  have ctor: "new_UnaryExprAST CHR ''-'' operand = Inr (UnaryExprAST CHR ''-'' operand (result_type operand))"
    "new_UnaryExprAST CHR ''!'' operand = Inr (UnaryExprAST CHR ''!'' operand (result_type operand))"
    by (simp_all add: new_UnaryExprAST_def)
  from minus not ctor show ?thesis
    by (intro conjI exI) simp_all
qed

theorem unary_minus_not_witness:
  "gen_value (VariableExprAST ''x'' F64)
       (codegen_init\<lparr>curr_named_variables := [(''x'', Some (BasicLoadValue F64 (Global 0)))]\<rparr>) =
     Inr (Some (BasicLoadValue F64 (Global 0)),
          codegen_init\<lparr>curr_named_variables := [(''x'', Some (BasicLoadValue F64 (Global 0)))]\<rparr>) \<and>
   (\<exists>zero_ty. gen_value (UnaryExprAST CHR ''-'' (VariableExprAST ''x'' F64) F64)
       (codegen_init\<lparr>curr_named_variables := [(''x'', Some (BasicLoadValue F64 (Global 0)))]\<rparr>) =
     Inr (Some (ConstValue F64 (Inst 2)),
          codegen_init\<lparr>next_ref := 3,
            insts := [(0, 1, LLVMBuildLoad2 (llvm_type F64) (Global 0)),
                      (0, 2, LLVMBuildFSub (LLVMConstReal zero_ty 0) (Inst 1))],
            curr_named_variables := [(''x'', Some (BasicLoadValue F64 (Global 0)))]\<rparr>))"
proof -
  let ?cg = "codegen_init\<lparr>curr_named_variables := [(''x'', Some (BasicLoadValue F64 (Global 0)))]\<rparr>"
  let ?cg2 = "codegen_init\<lparr>next_ref := 2, insts := [(0, 1, LLVMBuildLoad2 (llvm_type F64) (Global 0))],
                curr_named_variables := [(''x'', Some (BasicLoadValue F64 (Global 0)))]\<rparr>"
  have a: "gen_value (VariableExprAST ''x'' F64) ?cg = Inr (Some (BasicLoadValue F64 (Global 0)), ?cg)"
    by code_simp
  have b: "gen_val (BasicLoadValue F64 (Global 0)) ?cg = Inr (Inst 1, ?cg2)"
    by code_simp
  from unary_minus_not [OF a b, of F64]
  obtain zero_ty where "gen_value (UnaryExprAST CHR ''-'' (VariableExprAST ''x'' F64) F64) ?cg =
            Inr (Some (ConstValue F64 (fst (build (LLVMBuildFSub (LLVMConstReal zero_ty 0) (Inst 1)) ?cg2))),
                 snd (build (LLVMBuildFSub (LLVMConstReal zero_ty 0) (Inst 1)) ?cg2))"
    by blast
  then have "gen_value (UnaryExprAST CHR ''-'' (VariableExprAST ''x'' F64) F64) ?cg =
     Inr (Some (ConstValue F64 (Inst 2)),
          codegen_init\<lparr>next_ref := 3,
            insts := [(0, 1, LLVMBuildLoad2 (llvm_type F64) (Global 0)),
                      (0, 2, LLVMBuildFSub (LLVMConstReal zero_ty 0) (Inst 1))],
            curr_named_variables := [(''x'', Some (BasicLoadValue F64 (Global 0)))]\<rparr>)"
    by (simp add: build_def codegen_init_def)
  with a show ?thesis by blast
qed

text \<open>
  C8: an if built without an else arm gets the null expression of the then arm's type as
  its else arm; with an else arm, construction is a fatal error whenever the types of the
  two arms are not structurally equal (and succeeds otherwise).
\<close>

theorem if_else_default_and_arm_types:
  "new_IfExprAST cond thn None =
     Inr (IfExprAST cond thn (NullExprAST (result_type thn)) (result_type thn)) \<and>
   (neq (result_type thn) (result_type elze) \<longrightarrow>
      (\<exists>msg. new_IfExprAST cond thn (Some elze) = Inl (Error msg))) \<and>
   (\<not> neq (result_type thn) (result_type elze) \<longrightarrow>
      new_IfExprAST cond thn (Some elze) = Inr (IfExprAST cond thn elze (result_type thn)))"
  by (simp add: new_IfExprAST_def new_NullExprAST_def Let_def neq_def eq_refl error_def)

theorem if_else_default_and_arm_types_witness:
  "neq (result_type (NumberExprAST ''1'' 10 (NumType 32 False True))) (result_type (BoolExprAST True I1)) \<and>
   (\<exists>msg. new_IfExprAST (BoolExprAST True I1) (NumberExprAST ''1'' 10 (NumType 32 False True))
             (Some (BoolExprAST True I1)) = Inl (Error msg)) \<and>
   \<not> neq (result_type (NumberExprAST ''1'' 10 (NumType 32 False True)))
          (result_type (NumberExprAST ''2'' 10 (NumType 32 False True))) \<and>
   new_IfExprAST (BoolExprAST True I1) (NumberExprAST ''1'' 10 (NumType 32 False True))
       (Some (NumberExprAST ''2'' 10 (NumType 32 False True))) =
     Inr (IfExprAST (BoolExprAST True I1) (NumberExprAST ''1'' 10 (NumType 32 False True))
            (NumberExprAST ''2'' 10 (NumType 32 False True)) I32) \<and>
   new_IfExprAST (BoolExprAST True I1) (NumberExprAST ''1'' 10 (NumType 32 False True)) None =
     Inr (IfExprAST (BoolExprAST True I1) (NumberExprAST ''1'' 10 (NumType 32 False True))
            (NullExprAST I32) I32)"
proof -
  let ?c = "BoolExprAST True I1"
  let ?one = "NumberExprAST ''1'' 10 (NumType 32 False True)"
  let ?two = "NumberExprAST ''2'' 10 (NumType 32 False True)"
  have n1: "neq (result_type ?one) (result_type ?c)"
    by (simp add: neq_def eq_def)
  have n2: "\<not> neq (result_type ?one) (result_type ?two)"
    by (simp add: neq_def eq_def)
  from if_else_default_and_arm_types [of ?c ?one ?c] n1
  have a: "\<exists>msg. new_IfExprAST ?c ?one (Some ?c) = Inl (Error msg)"
    by blast
  from if_else_default_and_arm_types [of ?c ?one ?two] n2
  have b: "new_IfExprAST ?c ?one (Some ?two) = Inr (IfExprAST ?c ?one ?two I32)"
    and c: "new_IfExprAST ?c ?one None = Inr (IfExprAST ?c ?one (NullExprAST I32) I32)"
    by simp_all
  from n1 n2 a b c show ?thesis by blast
qed

text \<open>
  C6 (amended): a number literal is never refused by the lexer: whenever the lookahead is
  a digit, \<^verbatim>\<open>next_token\<close> returns \<open>T_NUMBER\<close>. The constructor of the number node
  accepts the floating suffixes f and d with any base. The fatal error for a floating
  literal whose base is not 10 is raised when the number node is emitted.
\<close>

theorem nondecimal_float_rejected_at_emission:
  "(\<forall>(kw :: string \<Rightarrow> Token option) (lx :: lexer).
      isdigit (last_char lx) \<longrightarrow> (\<exists>lx'. next_token kw lx = Inr (T_NUMBER, lx'))) \<and>
   (\<forall>val has_dot base.
      new_NumberExprAST val CHR ''f'' has_dot base = Inr (NumberExprAST val base (NumType 32 True True)) \<and>
      new_NumberExprAST val CHR ''d'' has_dot base = Inr (NumberExprAST val base (NumType 64 True True))) \<and>
   (\<forall>val base type cg.
      is_floating type \<and> base \<noteq> 10 \<longrightarrow>
        gen_value (NumberExprAST val base type) cg =
          Inl (Error ''floating-point numbers with a base that isn't decimal aren't supported.''))"
proof (intro conjI allI impI)
  fix kw :: "string \<Rightarrow> Token option" and lx :: lexer
  assume "isdigit (last_char lx)"
  then show "\<exists>lx'. next_token kw lx = Inr (T_NUMBER, lx')"
    using next_token_number by blast
next
  fix val :: string and has_dot :: bool and base :: nat
  show "new_NumberExprAST val CHR ''f'' has_dot base = Inr (NumberExprAST val base (NumType 32 True True))"
    by (simp add: new_NumberExprAST_def num_char_to_type_def)
  show "new_NumberExprAST val CHR ''d'' has_dot base = Inr (NumberExprAST val base (NumType 64 True True))"
    by (simp add: new_NumberExprAST_def num_char_to_type_def)
next
  fix val :: string and base :: nat and type :: NumType and cg :: codegen
  assume "is_floating type \<and> base \<noteq> 10"
  then show "gen_value (NumberExprAST val base type) cg =
          Inl (Error ''floating-point numbers with a base that isn't decimal aren't supported.'')"
    by (simp add: error_def)
qed

theorem nondecimal_float_rejected_at_emission_witness:
  "is_floating (NumType 32 True True) \<and> (2 :: nat) \<noteq> 10 \<and>
   new_NumberExprAST ''01'' CHR ''f'' False 2 = Inr (NumberExprAST ''01'' 2 (NumType 32 True True)) \<and>
   gen_value (NumberExprAST ''01'' 2 (NumType 32 True True)) codegen_init =
     Inl (Error ''floating-point numbers with a base that isn't decimal aren't supported.'')"
proof -
  have f: "is_floating (NumType 32 True True) \<and> (2 :: nat) \<noteq> 10"
    by simp
  from nondecimal_float_rejected_at_emission
  have a: "new_NumberExprAST ''01'' CHR ''f'' False 2 = Inr (NumberExprAST ''01'' 2 (NumType 32 True True))"
    by blast
  from nondecimal_float_rejected_at_emission f
  have b: "gen_value (NumberExprAST ''01'' 2 (NumType 32 True True)) codegen_init =
     Inl (Error ''floating-point numbers with a base that isn't decimal aren't supported.'')"
    by blast
  from f a b show ?thesis by blast
qed


text \<open>
  C4 (code): the constant let \<^verbatim>\<open>const x: i64 = 3\<close>. It is constructed with the result
  type \<open>Number(64, false, true)\<close>; emitting it returns the value of its initializer as it
  is, of type \<open>Number(32, false, true)\<close>, and binds \<open>x\<close> to it, so that the reference \<open>x\<close>
  constructed after it, of cached type \<open>Number(64, false, true)\<close>, emits that 32-bit value
  too. The mutable \<^verbatim>\<open>let x: i64 = 3\<close> casts the initializer to the declared type
  (instruction 2) and returns a value of the declared type.
\<close>

theorem constant_let_declared_type:
  "new_NumberExprAST ''3'' CHR ''i'' False 10 = Inr (NumberExprAST ''3'' 10 (NumType 32 False True)) \<and>
   new_LetExprAST ''x'' (Some I64) (Some (NumberExprAST ''3'' 10 (NumType 32 False True))) True False [] =
     Inr (LetExprAST ''x'' I64 (Some (NumberExprAST ''3'' 10 (NumType 32 False True))) True False,
          [(''x'', I64)]) \<and>
   result_type (LetExprAST ''x'' I64 (Some (NumberExprAST ''3'' 10 (NumType 32 False True))) True False) = I64 \<and>
   gen_value (LetExprAST ''x'' I64 (Some (NumberExprAST ''3'' 10 (NumType 32 False True))) True False)
       codegen_init =
     Inr (Some (ConstValue I32 (LLVMConstIntOfStringAndSize (llvm_type I32) ''3'' 10)),
          codegen_init\<lparr>curr_named_variables :=
            [(''x'', Some (ConstValue I32 (LLVMConstIntOfStringAndSize (llvm_type I32) ''3'' 10)))]\<rparr>) \<and>
   \<not> eq (get_type (ConstValue I32 (LLVMConstIntOfStringAndSize (llvm_type I32) ''3'' 10)))
         (result_type (LetExprAST ''x'' I64 (Some (NumberExprAST ''3'' 10 (NumType 32 False True))) True False)) \<and>
   new_VariableExprAST ''x'' [(''x'', I64)] = Inr (VariableExprAST ''x'' I64) \<and>
   gen_value (VariableExprAST ''x'' I64)
       (codegen_init\<lparr>curr_named_variables :=
          [(''x'', Some (ConstValue I32 (LLVMConstIntOfStringAndSize (llvm_type I32) ''3'' 10)))]\<rparr>) =
     Inr (Some (ConstValue I32 (LLVMConstIntOfStringAndSize (llvm_type I32) ''3'' 10)),
          codegen_init\<lparr>curr_named_variables :=
            [(''x'', Some (ConstValue I32 (LLVMConstIntOfStringAndSize (llvm_type I32) ''3'' 10)))]\<rparr>) \<and>
   gen_value (LetExprAST ''x'' I64 (Some (NumberExprAST ''3'' 10 (NumType 32 False True))) False False)
       codegen_init =
     Inr (Some (BasicLoadValue I64 (Inst 1)),
          codegen_init\<lparr>next_ref := 4,
            insts := [(0, 1, LLVMBuildAlloca (llvm_type I64)),
                      (0, 2, LLVMBuildIntCast2 (LLVMConstIntOfStringAndSize (llvm_type I32) ''3'' 10)
                               (llvm_type I64) True),
                      (0, 3, LLVMBuildStore (Inst 2) (Inst 1))],
            curr_named_variables := [(''x'', Some (BasicLoadValue I64 (Inst 1)))]\<rparr>)"
  by code_simp

theorem constant_let_declared_type_witness:
  "\<exists>v cg'. gen_value (LetExprAST ''x'' I64 (Some (NumberExprAST ''3'' 10 (NumType 32 False True))) True False)
       codegen_init = Inr (Some v, cg') \<and>
     get_type v = I32 \<and>
     result_type (LetExprAST ''x'' I64 (Some (NumberExprAST ''3'' 10 (NumType 32 False True))) True False) = I64"
  using constant_let_declared_type by simp

end
